theory Spec2Isabelle
  imports Complex_Main "HOL-Library.AList"
begin

section \<open>JavaScript values\<close>

text \<open>
  The wizard component (\<^verbatim>\<open>StepWizard\<close>) handles values typed \<^verbatim>\<open>any\<close>: step
  parameters, preview cells and metrics. They are modelled by the values JSON carries,
  plus \<^verbatim>\<open>undefined\<close> for a property that is not there. A number is a double: not a
  number, an infinity, or a finite value, which is kept as the real number it denotes
  (a literal such as \<^verbatim>\<open>0.2\<close> as its decimal value). An object is the list of its
  properties in property order; a read takes the first binding of a key.
\<close>

datatype jsnumber = NaN | PosInfinity | NegInfinity | Finite real

datatype jsvalue =
    JUndefined
  | JNull
  | JBool bool
  | JNum jsnumber
  | JStr string
  | JArray "jsvalue list"
  | JObject "(string \<times> jsvalue) list"

type_synonym jsobject = "(string \<times> jsvalue) list"

datatype error = TypeError | InvalidChild | CoercionNotModelled

text \<open>\<^verbatim>\<open>obj.key\<close> on an object of the component's own types.\<close>

definition property :: "jsobject \<Rightarrow> string \<Rightarrow> jsvalue" where
  "property obj k = (case map_of obj k of None \<Rightarrow> JUndefined | Some v \<Rightarrow> v)"

text \<open>
  \<^verbatim>\<open>v.key\<close> on a value typed \<^verbatim>\<open>any\<close>: reading a property of \<^verbatim>\<open>undefined\<close> or
  \<^verbatim>\<open>null\<close> throws; a primitive or an array has no property of the names read here.
\<close>

fun member :: "jsvalue \<Rightarrow> string \<Rightarrow> error + jsvalue" where
  "member JUndefined k = Inl TypeError"
| "member JNull k = Inl TypeError"
| "member (JObject kvs) k = Inr (property kvs k)"
| "member v k = Inr JUndefined"

text \<open>The truth value of a condition (\<^verbatim>\<open>a && b\<close>, \<^verbatim>\<open>a ? b : c\<close>).\<close>

fun truthy :: "jsvalue \<Rightarrow> bool" where
  "truthy JUndefined = False"
| "truthy JNull = False"
| "truthy (JBool b) = b"
| "truthy (JNum n) = (n \<noteq> NaN \<and> n \<noteq> Finite 0)"
| "truthy (JStr s) = (s \<noteq> [])"
| "truthy (JArray vs) = True"
| "truthy (JObject kvs) = True"

text \<open>Comparison of a number with a finite constant; every comparison with NaN is false.\<close>

fun js_ge :: "jsnumber \<Rightarrow> real \<Rightarrow> bool" where
  "js_ge NaN c = False"
| "js_ge PosInfinity c = True"
| "js_ge NegInfinity c = False"
| "js_ge (Finite r) c = (c \<le> r)"

fun js_gt :: "jsnumber \<Rightarrow> real \<Rightarrow> bool" where
  "js_gt NaN c = False"
| "js_gt PosInfinity c = True"
| "js_gt NegInfinity c = False"
| "js_gt (Finite r) c = (c < r)"

fun js_lt :: "jsnumber \<Rightarrow> real \<Rightarrow> bool" where
  "js_lt NaN c = False"
| "js_lt PosInfinity c = False"
| "js_lt NegInfinity c = True"
| "js_lt (Finite r) c = (r < c)"

fun Math_abs :: "jsnumber \<Rightarrow> jsnumber" where
  "Math_abs NaN = NaN"
| "Math_abs PosInfinity = PosInfinity"
| "Math_abs NegInfinity = PosInfinity"
| "Math_abs (Finite r) = Finite \<bar>r\<bar>"

text \<open>
  \<^verbatim>\<open>Math.max(...xs)\<close>: NaN as soon as one argument is NaN, the largest argument
  otherwise, and minus infinity for no argument.
\<close>

fun max2 :: "jsnumber \<Rightarrow> jsnumber \<Rightarrow> jsnumber" where
  "max2 NaN b = NaN"
| "max2 a NaN = NaN"
| "max2 PosInfinity b = PosInfinity"
| "max2 a PosInfinity = PosInfinity"
| "max2 NegInfinity b = b"
| "max2 a NegInfinity = a"
| "max2 (Finite x) (Finite y) = Finite (max x y)"

definition Math_max :: "jsnumber list \<Rightarrow> jsnumber" where
  "Math_max xs = foldl max2 NegInfinity xs"

text \<open>
  The conversion to a number that \<^verbatim>\<open>Math.max\<close> applies to an argument. The grammar of
  numeric strings belongs to the engine and is not modelled, so the conversion of a
  string or an array is left open. An object converts through its \<^verbatim>\<open>toString\<close>
  method, which a property of that name (never a function, in a value read from JSON)
  hides.
\<close>

fun ToNumber :: "jsvalue \<Rightarrow> error + jsnumber" where
  "ToNumber JUndefined = Inr NaN"
| "ToNumber JNull = Inr (Finite 0)"
| "ToNumber (JBool b) = Inr (Finite (if b then 1 else 0))"
| "ToNumber (JNum n) = Inr n"
| "ToNumber (JStr s) = Inl CoercionNotModelled"
| "ToNumber (JArray vs) = Inl CoercionNotModelled"
| "ToNumber (JObject kvs) = (if ''toString'' \<in> fst ` set kvs then Inl TypeError else Inr NaN)"

text \<open>
  Text. The digits that the engine prints for a finite number are not computed: the
  text of \<^verbatim>\<open>x.toString()\<close> and of \<^verbatim>\<open>x.toFixed(d)\<close> on a finite \<open>x\<close> is a term
  naming the conversion and its argument; \<open>Joined\<close> is \<^verbatim>\<open>join(',')\<close> of the texts of
  an array's elements.
\<close>

datatype jstext = Str string | NumToString real | NumToFixed nat real | Joined "jstext list"

fun Number_toString :: "jsnumber \<Rightarrow> jstext" where
  "Number_toString NaN = Str ''NaN''"
| "Number_toString PosInfinity = Str ''Infinity''"
| "Number_toString NegInfinity = Str ''-Infinity''"
| "Number_toString (Finite r) = NumToString r"

fun Number_toFixed :: "nat \<Rightarrow> jsnumber \<Rightarrow> jstext" where
  "Number_toFixed d NaN = Str ''NaN''"
| "Number_toFixed d PosInfinity = Str ''Infinity''"
| "Number_toFixed d NegInfinity = Str ''-Infinity''"
| "Number_toFixed d (Finite r) = NumToFixed d r"

text \<open>The first error of a list of results, in evaluation order, or all the values.\<close>

fun collect :: "(error + 'a) list \<Rightarrow> error + 'a list" where
  "collect [] = Inr []"
| "collect (x # xs) =
     (case x of
        Inl e \<Rightarrow> Inl e
      | Inr v \<Rightarrow> (case collect xs of Inl e \<Rightarrow> Inl e | Inr vs \<Rightarrow> Inr (v # vs)))"

text \<open>
  \<^verbatim>\<open>v.toString()\<close>: \<^verbatim>\<open>undefined\<close> and \<^verbatim>\<open>null\<close> have no method, so the call throws;
  an array joins the strings of its elements, taking the empty string for an
  \<^verbatim>\<open>undefined\<close> or \<^verbatim>\<open>null\<close> element; an object has the inherited method unless a
  property of that name hides it.
\<close>

fun toString :: "jsvalue \<Rightarrow> error + jstext" where
  "toString JUndefined = Inl TypeError"
| "toString JNull = Inl TypeError"
| "toString (JBool b) = Inr (Str (if b then ''true'' else ''false''))"
| "toString (JNum n) = Inr (Number_toString n)"
| "toString (JStr s) = Inr (Str s)"
| "toString (JArray vs) =
     (case collect
             (map (\<lambda>v. if v = JUndefined \<or> v = JNull then Inr (Str []) else toString v) vs) of
        Inl e \<Rightarrow> Inl e
      | Inr ts \<Rightarrow> Inr (Joined ts))"
| "toString (JObject kvs) =
     (if ''toString'' \<in> fst ` set kvs then Inl TypeError else Inr (Str ''[object Object]''))"

text \<open>
  A value handed to React as a child: an object is refused (React throws), an array
  is accepted when its elements are, everything else is accepted.
\<close>

fun valid_child :: "jsvalue \<Rightarrow> bool" where
  "valid_child (JObject kvs) = False"
| "valid_child (JArray vs) = list_all valid_child vs"
| "valid_child v = True"

text \<open>The decimal digits of a natural number, as a template literal prints an integer.\<close>

definition digit :: "nat \<Rightarrow> char" where
  "digit d = ''0123456789'' ! d"

fun decimal :: "nat \<Rightarrow> string" where
  "decimal n = (if n < 10 then [digit n] else decimal (n div 10) @ [digit (n mod 10)])"

declare decimal.simps [simp del]

section \<open>Types of the component\<close>

text \<open>
  \<^verbatim>\<open>StepType = PreprocessingType | 'train_test_split' | ModelType\<close>: the union is
  kept as the source writes it, so a \<^verbatim>\<open>PreprocessingType\<close> or \<^verbatim>\<open>ModelType\<close> is
  injected into \<^verbatim>\<open>StepType\<close> by \<open>Pre\<close> or \<open>Mdl\<close>.
\<close>

datatype PreprocessingType = standard_scaler | min_max_scaler | drop_nulls

datatype ModelType = logistic_regression | decision_tree_classifier

datatype StepType = Pre PreprocessingType | train_test_split | Mdl ModelType

text \<open>
  \<^verbatim>\<open>PipelineStep\<close>. The fields \<^verbatim>\<open>id\<close> and \<^verbatim>\<open>type\<close> are named \<open>step_id\<close> and
  \<open>step_type\<close>.
\<close>

record PipelineStep =
  step_id :: string
  step_type :: StepType
  params :: jsobject

record PipelineResult =
  success :: bool
  message :: string
  metrics :: jsobject
  logs :: "string list"
  model_path :: "string option"

record Distributions =
  target_column :: string
  dist_data :: "(string \<times> jsnumber) list"

record Correlations =
  labels :: "string list"
  corr_data :: "jsnumber list list"

record ScatterPoint =
  point_x :: jsnumber
  point_y :: jsnumber
  point_class :: string

record DatasetMetadata =
  filename :: string
  rows :: jsnumber
  columns :: jsnumber
  column_names :: "string list"
  preview :: "jsobject list"
  distributions :: "Distributions option"
  correlations :: "Correlations option"
  scatter_data :: "ScatterPoint list option"

section \<open>Constants\<close>

text \<open>The \<^verbatim>\<open>category\<close> of a template is typed \<^verbatim>\<open>'preprocessing' | 'model'\<close>.\<close>

datatype Category = preprocessing | model

text \<open>
  \<^verbatim>\<open>STEP_TEMPLATES\<close>, a record with one entry for each \<^verbatim>\<open>StepType\<close>. The
  \<^verbatim>\<open>description\<close> of an entry, a paragraph of help text, is left out.
\<close>

record Template =
  label :: string
  category :: Category
  defaultParams :: jsobject

fun STEP_TEMPLATES :: "StepType \<Rightarrow> Template" where
  "STEP_TEMPLATES (Pre standard_scaler) =
     \<lparr>label = ''Standard Scaler'', category = preprocessing, defaultParams = []\<rparr>"
| "STEP_TEMPLATES (Pre min_max_scaler) =
     \<lparr>label = ''Min Max Scaler'', category = preprocessing,
      defaultParams = [(''feature_range'', JStr ''0,1'')]\<rparr>"
| "STEP_TEMPLATES (Pre drop_nulls) =
     \<lparr>label = ''Drop Missing Values'', category = preprocessing,
      defaultParams = [(''axis'', JNum (Finite 0))]\<rparr>"
| "STEP_TEMPLATES train_test_split =
     \<lparr>label = ''Train/Test Split'', category = preprocessing,
      defaultParams = [(''test_size'', JNum (Finite 0.2))]\<rparr>"
| "STEP_TEMPLATES (Mdl logistic_regression) =
     \<lparr>label = ''Logistic Regression'', category = model,
      defaultParams = [(''C'', JNum (Finite 1.0))]\<rparr>"
| "STEP_TEMPLATES (Mdl decision_tree_classifier) =
     \<lparr>label = ''Decision Tree Classifier'', category = model,
      defaultParams = [(''max_depth'', JNum (Finite 5))]\<rparr>"

text \<open>
  The three kinds of step type that the type declarations give: the members of
  \<^verbatim>\<open>PreprocessingType\<close>, the literal \<^verbatim>\<open>'train_test_split'\<close>, the members of
  \<^verbatim>\<open>ModelType\<close>.
\<close>

datatype Kind = KPreprocessing | KSplit | KModel

fun kind_of :: "StepType \<Rightarrow> Kind" where
  "kind_of (Pre p) = KPreprocessing"
| "kind_of train_test_split = KSplit"
| "kind_of (Mdl m) = KModel"

text \<open>The kind that a template's category names.\<close>

fun category_kind :: "Category \<Rightarrow> Kind" where
  "category_kind preprocessing = KPreprocessing"
| "category_kind model = KModel"

record WizardStep =
  wizard_id :: int
  title :: string

definition WIZARD_STEPS :: "WizardStep list" where
  "WIZARD_STEPS =
     [\<lparr>wizard_id = 1, title = ''Data Source''\<rparr>,
      \<lparr>wizard_id = 2, title = ''Preprocessing''\<rparr>,
      \<lparr>wizard_id = 3, title = ''Train/Test Split''\<rparr>,
      \<lparr>wizard_id = 4, title = ''Model Selection''\<rparr>,
      \<lparr>wizard_id = 5, title = ''Results''\<rparr>]"

section \<open>State and handlers\<close>

text \<open>
  The state of \<^verbatim>\<open>StepWizard\<close>: one field for each \<^verbatim>\<open>useState\<close>. A handler is a
  function from the state in which it is called to the state it leaves; what the
  outside world answers (the reply to a request, the random id of a new step, the value
  of the slider) is an argument of the handler. A handler runs to its end, awaits
  included, before the next one starts.
\<close>

record State =
  currentStep :: int
  preprocessingSteps :: "PipelineStep list"
  testSize :: jsnumber
  selectedModel :: "PipelineStep option"
  isRunning :: bool
  results :: "PipelineResult option"
  datasetMetadata :: "DatasetMetadata option"
  uploadError :: "string option"
  isUploading :: bool

definition initial_state :: State where
  "initial_state =
     \<lparr>currentStep = 1, preprocessingSteps = [], testSize = Finite 0.2,
      selectedModel = None, isRunning = False, results = None, datasetMetadata = None,
      uploadError = None, isUploading = False\<rparr>"

definition handleBack :: "State \<Rightarrow> State" where
  "handleBack s = (if currentStep s > 1 then s\<lparr>currentStep := currentStep s - 1\<rparr> else s)"

text \<open>The second argument is the id drawn from \<^verbatim>\<open>Math.random()\<close>.\<close>

definition addPreprocessingStep :: "PreprocessingType \<Rightarrow> string \<Rightarrow> State \<Rightarrow> State" where
  "addPreprocessingStep t rid s =
     s\<lparr>preprocessingSteps := preprocessingSteps s @
        [\<lparr>step_id = rid, step_type = Pre t,
          params = defaultParams (STEP_TEMPLATES (Pre t))\<rparr>]\<rparr>"

definition removePreprocessingStep :: "string \<Rightarrow> State \<Rightarrow> State" where
  "removePreprocessingStep i s =
     s\<lparr>preprocessingSteps := filter (\<lambda>st. step_id st \<noteq> i) (preprocessingSteps s)\<rparr>"

text \<open>
  \<^verbatim>\<open>{ ...s.params, [param]: value }\<close> replaces the value of a key that is there, in
  its place, and adds a key that is not where the engine lists it: a key that is an
  array index (a decimal numeral without a leading zero, below \<open>2^32 - 1\<close>) among the
  index keys, which come first and in ascending order; any other key last.
\<close>

definition array_index :: "string \<Rightarrow> nat option" where
  "array_index k =
     (let n = foldl (\<lambda>a c. 10 * a + (of_char c - 48)) 0 k
      in if k \<noteq> [] \<and> list_all (\<lambda>c. c \<in> set ''0123456789'') k
            \<and> (length k = 1 \<or> hd k \<noteq> CHR ''0'') \<and> n < 2 ^ 32 - 1
         then Some n else None)"

fun insert_index :: "nat \<Rightarrow> string \<Rightarrow> jsvalue \<Rightarrow> jsobject \<Rightarrow> jsobject" where
  "insert_index i k v [] = [(k, v)]"
| "insert_index i k v (p # ps) =
     (case array_index (fst p) of
        None \<Rightarrow> (k, v) # p # ps
      | Some j \<Rightarrow> if j < i then p # insert_index i k v ps else (k, v) # p # ps)"

definition assign :: "string \<Rightarrow> jsvalue \<Rightarrow> jsobject \<Rightarrow> jsobject" where
  "assign k v obj =
     (if k \<in> fst ` set obj then AList.update k v obj
      else case array_index k of
             None \<Rightarrow> obj @ [(k, v)]
           | Some i \<Rightarrow> insert_index i k v obj)"

definition updatePreprocessingParam :: "string \<Rightarrow> string \<Rightarrow> jsvalue \<Rightarrow> State \<Rightarrow> State" where
  "updatePreprocessingParam i param v s =
     s\<lparr>preprocessingSteps :=
        map (\<lambda>st. if step_id st = i then st\<lparr>params := assign param v (params st)\<rparr> else st)
          (preprocessingSteps s)\<rparr>"

definition selectModel :: "ModelType \<Rightarrow> State \<Rightarrow> State" where
  "selectModel t s =
     s\<lparr>selectedModel :=
        Some \<lparr>step_id = ''model-step'', step_type = Mdl t,
              params = defaultParams (STEP_TEMPLATES (Mdl t))\<rparr>\<rparr>"

definition updateModelParam :: "string \<Rightarrow> jsvalue \<Rightarrow> State \<Rightarrow> State" where
  "updateModelParam param v s =
     (case selectedModel s of
        None \<Rightarrow> s
      | Some m \<Rightarrow> s\<lparr>selectedModel := Some (m\<lparr>params := assign param v (params m)\<rparr>)\<rparr>)"

text \<open>
  \<^verbatim>\<open>handleFileChange\<close>: no file chosen, the metadata the server answered, or the
  message of the error that was caught.
\<close>

datatype upload = NoFile | Uploaded DatasetMetadata | UploadFailed string

fun handleFileChange :: "upload \<Rightarrow> State \<Rightarrow> State" where
  "handleFileChange NoFile s = s"
| "handleFileChange (Uploaded md) s =
     s\<lparr>isUploading := False, uploadError := None, datasetMetadata := Some md\<rparr>"
| "handleFileChange (UploadFailed msg) s =
     s\<lparr>isUploading := False, uploadError := Some msg, datasetMetadata := None\<rparr>"

text \<open>
  \<^verbatim>\<open>runPipeline\<close>. The body of the request is \<open>request\<close>; \<open>fetch\<close> is what comes
  back: a reply with an ok status and the result in its body, a reply with another
  status, or an error thrown by \<^verbatim>\<open>fetch\<close> or by \<^verbatim>\<open>res.json()\<close>, with its message.
\<close>

record PipelineRequest =
  datasetName :: string
  steps :: "PipelineStep list"

definition fullSteps :: "State \<Rightarrow> PipelineStep \<Rightarrow> PipelineStep list" where
  "fullSteps s m =
     preprocessingSteps s @
     [\<lparr>step_id = ''split'', step_type = train_test_split,
       params = [(''test_size'', JNum (testSize s))]\<rparr>, m]"

definition request :: "State \<Rightarrow> PipelineRequest option" where
  "request s =
     (case selectedModel s of
        None \<Rightarrow> None
      | Some m \<Rightarrow>
          Some \<lparr>datasetName =
                  (case datasetMetadata s of
                     None \<Rightarrow> ''Unknown''
                   | Some md \<Rightarrow> if filename md = [] then ''Unknown'' else filename md),
                steps = fullSteps s m\<rparr>)"

datatype fetch = Responded PipelineResult | NotOk nat | Threw string

definition failed :: "string \<Rightarrow> PipelineResult" where
  "failed msg =
     \<lparr>success = False, message = ''Failed to execute pipeline'', metrics = [],
      logs = [''Error: '' @ msg], model_path = None\<rparr>"

fun fetched :: "fetch \<Rightarrow> PipelineResult" where
  "fetched (Responded r) = r"
| "fetched (NotOk status) = failed (''Server status: '' @ decimal status)"
| "fetched (Threw msg) = failed msg"

definition runPipeline :: "fetch \<Rightarrow> State \<Rightarrow> State" where
  "runPipeline f s =
     (case selectedModel s of
        None \<Rightarrow> s
      | Some m \<Rightarrow> s\<lparr>isRunning := False, results := Some (fetched f)\<rparr>)"

text \<open>
  \<^verbatim>\<open>handleNext\<close>: both tests read the \<^verbatim>\<open>currentStep\<close> of the state in which the
  handler was called.
\<close>

definition handleNext :: "fetch \<Rightarrow> State \<Rightarrow> State" where
  "handleNext f s =
     (let s' = (if currentStep s = 4 then runPipeline f s else s)
      in if currentStep s < int (length WIZARD_STEPS)
         then s'\<lparr>currentStep := currentStep s + 1\<rparr> else s')"

text \<open>The inline handlers of the Start Over and Change buttons and of the slider.\<close>

definition startOver :: "State \<Rightarrow> State" where
  "startOver s = s\<lparr>currentStep := 1\<rparr>"

definition changeDataset :: "State \<Rightarrow> State" where
  "changeDataset s = s\<lparr>datasetMetadata := None, preprocessingSteps := [], selectedModel := None\<rparr>"

definition setTestSize :: "jsnumber \<Rightarrow> State \<Rightarrow> State" where
  "setTestSize n s = s\<lparr>testSize := n\<rparr>"

text \<open>
  The states of the wizard: the initial one, and the one any handler leaves when it is
  called in such a state. The controls call the handlers with less freedom (a button is
  shown on some steps only, and two handlers are called by no control), so the states
  the user reaches are among these.
\<close>

datatype event =
    Next fetch
  | Back
  | StartOver
  | AddStep PreprocessingType string
  | RemoveStep string
  | UpdateStepParam string string jsvalue
  | SelectModel ModelType
  | UpdateModelParam string jsvalue
  | Slider jsnumber
  | FileChange upload
  | ChangeDataset

fun handle :: "event \<Rightarrow> State \<Rightarrow> State" where
  "handle (Next f) s = handleNext f s"
| "handle Back s = handleBack s"
| "handle StartOver s = startOver s"
| "handle (AddStep t rid) s = addPreprocessingStep t rid s"
| "handle (RemoveStep i) s = removePreprocessingStep i s"
| "handle (UpdateStepParam i param v) s = updatePreprocessingParam i param v s"
| "handle (SelectModel t) s = selectModel t s"
| "handle (UpdateModelParam param v) s = updateModelParam param v s"
| "handle (Slider n) s = setTestSize n s"
| "handle (FileChange u) s = handleFileChange u s"
| "handle ChangeDataset s = changeDataset s"

inductive reachable :: "State \<Rightarrow> bool" where
  start: "reachable initial_state"
| after: "reachable s \<Longrightarrow> reachable (handle e s)"

section \<open>What the component renders\<close>

subsection \<open>The explanation of the accuracy\<close>

text \<open>
  \<^verbatim>\<open>ResultExplanation\<close>. \<^verbatim>\<open>parseFloat\<close> belongs to the engine and is an argument:
  the number it returns for a string. \<^verbatim>\<open>accuracy.replace('%', '')\<close> removes the first
  percent sign.
\<close>

record Explanation =
  grade :: string
  color :: string
  advice :: "jstext list"
  shown_accuracy :: string

definition ResultExplanation :: "(string \<Rightarrow> jsnumber) \<Rightarrow> string \<Rightarrow> Explanation" where
  "ResultExplanation parseFloat accuracy =
     (let accVal = parseFloat (remove1 (CHR ''%'') accuracy)
      in if js_ge accVal 90 then
           \<lparr>grade = ''Excellent'', color = ''#28a745'',
            advice = [Str ''Your model correctly identifies the class '',
                      Number_toString accVal,
                      Str ''% of the time! It has learned the patterns very well.''],
            shown_accuracy = accuracy\<rparr>
         else if js_ge accVal 70 then
           \<lparr>grade = ''Good'', color = ''#ffc107'',
            advice = [Str ''Your model is doing a decent job (correct '',
                      Number_toString accVal,
                      Str '' times out of 100). It makes some mistakes but is generally reliable.''],
            shown_accuracy = accuracy\<rparr>
         else
           \<lparr>grade = ''Needs Improvement'', color = ''#dc3545'',
            advice = [Str ''The model is struggling to find patterns. Try adding more data or using a different model.''],
            shown_accuracy = accuracy\<rparr>)"

subsection \<open>The results\<close>

text \<open>
  A row of the feature-importance chart: the title and the name are both
  \<^verbatim>\<open>feat.feature\<close>, the bar is as wide as \<^verbatim>\<open>feat.importance / maxVal\<close> (the two
  numbers are kept, not divided), the figure is \<^verbatim>\<open>feat.importance.toFixed(3)\<close>.
\<close>

record ImportanceRow =
  row_title :: jsvalue
  row_name :: jsvalue
  bar_importance :: jsnumber
  bar_maxVal :: jsnumber
  figure :: jstext

record MatrixCell =
  cell_value :: jsvalue
  on_diagonal :: bool

text \<open>
  The elements of the results block. \<open>Child v\<close> is a value in braces, such as the
  left operand that \<^verbatim>\<open>a && b\<close> leaves when it is not truthy.
\<close>

datatype vnode =
    Child jsvalue
  | ExplanationBox Explanation
  | MetricCard string jsvalue
  | FeatureImportance "ImportanceRow list"
  | ConfusionMatrix "MatrixCell list list"
  | DownloadButton
  | ErrorBox string
  | LogsConsole "string list"
  | Spinner

text \<open>
  \<^verbatim>\<open>Math.max(...results.metrics.feature_importance.map(f => f.importance))\<close>, over
  the whole list.
\<close>

definition maxVal :: "jsvalue list \<Rightarrow> error + jsnumber" where
  "maxVal fs =
     (case collect (map (\<lambda>f. member f ''importance'') fs) of
        Inl e \<Rightarrow> Inl e
      | Inr vs \<Rightarrow>
          (case collect (map ToNumber vs) of
             Inl e \<Rightarrow> Inl e
           | Inr ns \<Rightarrow> Inr (Math_max ns)))"

text \<open>
  The callback of \<^verbatim>\<open>slice(0, 10).map\<close>: \<^verbatim>\<open>toFixed\<close> is a method of numbers only.
\<close>

definition importance_row :: "jsvalue list \<Rightarrow> jsvalue \<Rightarrow> error + ImportanceRow" where
  "importance_row fs feat =
     (case maxVal fs of
        Inl e \<Rightarrow> Inl e
      | Inr mx \<Rightarrow>
          (case member feat ''feature'' of
             Inl e \<Rightarrow> Inl e
           | Inr name \<Rightarrow>
               (case member feat ''importance'' of
                  Inl e \<Rightarrow> Inl e
                | Inr (JNum n) \<Rightarrow>
                    Inr \<lparr>row_title = name, row_name = name, bar_importance = n,
                         bar_maxVal = mx, figure = Number_toFixed 3 n\<rparr>
                | Inr _ \<Rightarrow> Inl TypeError)))"

text \<open>
  The feature-importance block, for a truthy \<^verbatim>\<open>results.metrics.feature_importance\<close>:
  only an array has both \<^verbatim>\<open>slice\<close> and \<^verbatim>\<open>map\<close>.
\<close>

definition feature_importance_block :: "jsvalue \<Rightarrow> error + vnode" where
  "feature_importance_block v =
     (case v of
        JArray fs \<Rightarrow>
          (case collect (map (importance_row fs) (take 10 fs)) of
             Inl e \<Rightarrow> Inl e
           | Inr rs \<Rightarrow> Inr (FeatureImportance rs))
      | _ \<Rightarrow> Inl TypeError)"

text \<open>The confusion-matrix block: a row is green where its index equals the column's.\<close>

definition matrix_row :: "nat \<times> jsvalue \<Rightarrow> error + MatrixCell list" where
  "matrix_row ir =
     (case snd ir of
        JArray vals \<Rightarrow>
          Inr (map (\<lambda>cv. \<lparr>cell_value = snd cv, on_diagonal = (fst ir = fst cv)\<rparr>)
                 (enumerate 0 vals))
      | _ \<Rightarrow> Inl TypeError)"

definition confusion_matrix_block :: "jsvalue \<Rightarrow> error + vnode" where
  "confusion_matrix_block v =
     (case v of
        JArray rs \<Rightarrow>
          (case collect (map matrix_row (enumerate 0 rs)) of
             Inl e \<Rightarrow> Inl e
           | Inr cells \<Rightarrow> Inr (ConfusionMatrix cells))
      | _ \<Rightarrow> Inl TypeError)"

text \<open>\<^verbatim>\<open>{a && block}\<close>.\<close>

definition when_truthy :: "jsvalue \<Rightarrow> error + vnode \<Rightarrow> error + vnode" where
  "when_truthy a block = (if truthy a then block else Inr (Child a))"

text \<open>
  The explanation, for a truthy \<^verbatim>\<open>results.metrics.Accuracy\<close>: \<^verbatim>\<open>replace\<close> is a
  method of strings only.
\<close>

definition explanation_block :: "(string \<Rightarrow> jsnumber) \<Rightarrow> jsvalue \<Rightarrow> error + vnode" where
  "explanation_block parseFloat a =
     (case a of
        JStr acc \<Rightarrow> Inr (ExplanationBox (ResultExplanation parseFloat acc))
      | _ \<Rightarrow> Inl TypeError)"

text \<open>\<^verbatim>\<open>{results.model_path && button}\<close>, for an optional string.\<close>

definition download_block :: "string option \<Rightarrow> vnode" where
  "download_block p =
     (case p of
        None \<Rightarrow> Child JUndefined
      | Some path \<Rightarrow> if path \<noteq> [] then DownloadButton else Child (JStr path))"

text \<open>The branch of a result with \<^verbatim>\<open>success\<close>, in the order of the source.\<close>

definition success_blocks :: "(string \<Rightarrow> jsnumber) \<Rightarrow> PipelineResult \<Rightarrow> error + vnode list" where
  "success_blocks parseFloat r =
     (let m = metrics r
      in collect
           [when_truthy (property m ''Accuracy'')
              (explanation_block parseFloat (property m ''Accuracy'')),
            Inr (MetricCard ''ACCURACY'' (property m ''Accuracy'')),
            Inr (MetricCard ''TRAIN SAMPLES'' (property m ''train_samples'')),
            Inr (MetricCard ''TEST SAMPLES'' (property m ''test_samples'')),
            when_truthy (property m ''feature_importance'')
              (feature_importance_block (property m ''feature_importance'')),
            when_truthy (property m ''confusion_matrix'')
              (confusion_matrix_block (property m ''confusion_matrix'')),
            Inr (download_block (model_path r))])"

definition result_blocks :: "(string \<Rightarrow> jsnumber) \<Rightarrow> PipelineResult \<Rightarrow> error + vnode list" where
  "result_blocks parseFloat r =
     (case (if success r then success_blocks parseFloat r else Inr [ErrorBox (message r)]) of
        Inl e \<Rightarrow> Inl e
      | Inr ns \<Rightarrow> Inr (ns @ [LogsConsole (logs r)]))"

text \<open>The values that a block hands to React as children.\<close>

fun children :: "vnode \<Rightarrow> jsvalue list" where
  "children (Child v) = [v]"
| "children (MetricCard l v) = [v]"
| "children (FeatureImportance rs) = map row_name rs"
| "children (ConfusionMatrix cells) = map cell_value (concat cells)"
| "children n = []"

definition mount :: "vnode list \<Rightarrow> error + vnode list" where
  "mount ns = (if list_all valid_child (concat (map children ns)) then Inr ns else Inl InvalidChild)"

text \<open>
  The content of step 5 below its heading: the spinner while the pipeline runs,
  nothing without results, the blocks of the results otherwise.
\<close>

definition result_view :: "(string \<Rightarrow> jsnumber) \<Rightarrow> PipelineResult \<Rightarrow> error + vnode list" where
  "result_view parseFloat r =
     (case result_blocks parseFloat r of Inl e \<Rightarrow> Inl e | Inr ns \<Rightarrow> mount ns)"

definition results_view :: "(string \<Rightarrow> jsnumber) \<Rightarrow> State \<Rightarrow> error + vnode list" where
  "results_view parseFloat s =
     (if isRunning s then Inr [Spinner]
      else case results s of
             None \<Rightarrow> Inr [Child JNull]
           | Some r \<Rightarrow> result_view parseFloat r)"

subsection \<open>The data source\<close>

text \<open>A cell of the preview table: \<^verbatim>\<open>val?.toString() ?? ''\<close>.\<close>

definition preview_cell :: "jsvalue \<Rightarrow> error + jstext" where
  "preview_cell val = (if val = JUndefined \<or> val = JNull then Inr (Str []) else toString val)"

text \<open>
  The preview table, rendered for a preview with a row: the head is
  \<^verbatim>\<open>Object.keys\<close> of the first row, a body row is \<^verbatim>\<open>Object.values\<close> of its row.
\<close>

record PreviewTable =
  head_cells :: "string list"
  body_rows :: "jstext list list"

definition preview_table :: "DatasetMetadata \<Rightarrow> error + PreviewTable option" where
  "preview_table md =
     (case preview md of
        [] \<Rightarrow> Inr None
      | first # rest \<Rightarrow>
          (case collect (map (\<lambda>row. collect (map preview_cell (map snd row))) (preview md)) of
             Inl e \<Rightarrow> Inl e
           | Inr body \<Rightarrow> Inr (Some \<lparr>head_cells = map fst first, body_rows = body\<rparr>)))"

text \<open>
  The correlation heatmap: a notice for more than 8 labels, or a grid with one column
  for each label and one cell for each value of \<^verbatim>\<open>data.flat()\<close>.
\<close>

record HeatCell =
  alpha :: jsnumber
  ink :: string
  cell_figure :: jstext

datatype Heatmap = Notice string | Grid nat "HeatCell list"

definition heat_cell :: "jsnumber \<Rightarrow> HeatCell" where
  "heat_cell val =
     \<lparr>alpha = Math_abs val,
      ink = (if js_gt (Math_abs val) 0.5 then ''white'' else ''black''),
      cell_figure = Number_toFixed 1 val\<rparr>"

definition heatmap :: "DatasetMetadata \<Rightarrow> Heatmap option" where
  "heatmap md =
     (case correlations md of
        None \<Rightarrow> None
      | Some c \<Rightarrow>
          Some (if length (labels c) > 8 then Notice ''Too many features.''
                else Grid (length (labels c)) (map heat_cell (concat (corr_data c)))))"

section \<open>Vocabulary of the properties\<close>

text \<open>The step types of the two unions.\<close>

fun is_preprocessing :: "StepType \<Rightarrow> bool" where
  "is_preprocessing (Pre p) = True"
| "is_preprocessing t = False"

fun is_model :: "StepType \<Rightarrow> bool" where
  "is_model (Mdl m) = True"
| "is_model t = False"

text \<open>
  A run that fails: the server answers a result without \<^verbatim>\<open>success\<close>, or the request
  errors (a status that is not ok, or an error thrown).
\<close>

fun run_failed :: "fetch \<Rightarrow> bool" where
  "run_failed (Responded r) = (\<not> success r)"
| "run_failed (NotOk status) = True"
| "run_failed (Threw msg) = True"

text \<open>
  The entries of a feature-importance list as the server sends them: objects with a
  number under \<^verbatim>\<open>importance\<close> and, under \<^verbatim>\<open>feature\<close>, a value that React accepts
  as a child (a string, in the server's results).
\<close>

fun importance_of :: "jsvalue \<Rightarrow> jsnumber option" where
  "importance_of (JObject kvs) =
     (case property kvs ''importance'' of JNum n \<Rightarrow> Some n | _ \<Rightarrow> None)"
| "importance_of v = None"

fun feature_of :: "jsvalue \<Rightarrow> jsvalue" where
  "feature_of (JObject kvs) = property kvs ''feature''"
| "feature_of v = JUndefined"

definition importance_entry :: "jsvalue \<Rightarrow> bool" where
  "importance_entry f = (importance_of f \<noteq> None \<and> valid_child (feature_of f))"

text \<open>\<^verbatim>\<open>a >= b\<close> on two numbers.\<close>

fun js_geq :: "jsnumber \<Rightarrow> jsnumber \<Rightarrow> bool" where
  "js_geq NaN b = False"
| "js_geq a NaN = False"
| "js_geq PosInfinity b = True"
| "js_geq a NegInfinity = True"
| "js_geq NegInfinity b = False"
| "js_geq a PosInfinity = False"
| "js_geq (Finite x) (Finite y) = (y \<le> x)"

text \<open>A confusion matrix as the server sends it: an array of arrays of numbers.\<close>

fun is_number :: "jsvalue \<Rightarrow> bool" where
  "is_number (JNum n) = True"
| "is_number v = False"

fun number_row :: "jsvalue \<Rightarrow> bool" where
  "number_row (JArray vals) = list_all is_number vals"
| "number_row v = False"

fun number_matrix :: "jsvalue \<Rightarrow> bool" where
  "number_matrix (JArray rs) = list_all number_row rs"
| "number_matrix v = False"

fun importance_list :: "jsvalue \<Rightarrow> bool" where
  "importance_list (JArray fs) = list_all importance_entry fs"
| "importance_list v = False"

fun is_string :: "jsvalue \<Rightarrow> bool" where
  "is_string (JStr s) = True"
| "is_string v = False"

text \<open>The blocks of a view, by kind.\<close>

fun is_explanation :: "vnode \<Rightarrow> bool" where
  "is_explanation (ExplanationBox e) = True"
| "is_explanation n = False"

fun is_feature_importance :: "vnode \<Rightarrow> bool" where
  "is_feature_importance (FeatureImportance rs) = True"
| "is_feature_importance n = False"

fun is_confusion_matrix :: "vnode \<Rightarrow> bool" where
  "is_confusion_matrix (ConfusionMatrix cells) = True"
| "is_confusion_matrix n = False"

text \<open>
  What the types of the handlers promise of a state: the preprocessing steps have
  preprocessing types and the selected model, if any, has a model type.
\<close>

definition typed :: "State \<Rightarrow> bool" where
  "typed s \<longleftrightarrow>
     list_all (\<lambda>st. is_preprocessing (step_type st)) (preprocessingSteps s) \<and>
     (case selectedModel s of None \<Rightarrow> True | Some m \<Rightarrow> is_model (step_type m))"

text \<open>
  The metrics of a result as the view reads them: the accuracy, when truthy, is a
  string; the two sample counts are values that React accepts as children; the feature
  importance, when truthy, is a list of entries; the confusion matrix, when truthy, is
  an array of arrays of numbers.
\<close>

definition shaped :: "jsobject \<Rightarrow> bool" where
  "shaped m \<longleftrightarrow>
     (if truthy (property m ''Accuracy'') then is_string (property m ''Accuracy'') else True) \<and>
     valid_child (property m ''train_samples'') \<and>
     valid_child (property m ''test_samples'') \<and>
     (if truthy (property m ''feature_importance'')
      then importance_list (property m ''feature_importance'') else True) \<and>
     (if truthy (property m ''confusion_matrix'')
      then number_matrix (property m ''confusion_matrix'') else True)"

text \<open>The metadata of a file with a preview and correlations, for the examples.\<close>

definition sample_metadata :: "jsobject list \<Rightarrow> Correlations option \<Rightarrow> DatasetMetadata" where
  "sample_metadata rs c =
     \<lparr>filename = ''iris.csv'', rows = Finite 150, columns = Finite 5,
      column_names = (case rs of [] \<Rightarrow> [] | r # _ \<Rightarrow> map fst r), preview = rs,
      distributions = None, correlations = c, scatter_data = None\<rparr>"

text \<open>An entry of a feature-importance list, for the examples.\<close>

definition entry :: "string \<Rightarrow> real \<Rightarrow> jsvalue" where
  "entry name x = JObject [(''feature'', JStr name), (''importance'', JNum (Finite x))]"

section \<open>Step types and templates\<close>

text \<open>
  C3, as the claim states it, fails: the template of \<^verbatim>\<open>train_test_split\<close> declares
  the category \<^verbatim>\<open>'preprocessing'\<close>, while the type declarations put the step type in
  a kind of its own.
\<close>

theorem template_category_counterexample:
  "category_kind (category (STEP_TEMPLATES train_test_split)) \<noteq> kind_of train_test_split"
  by simp

text \<open>
  C3, amended. The step types are the six listed, and the type declarations part them
  into three kinds: the three preprocessing types, \<^verbatim>\<open>train_test_split\<close> alone, the two
  model types. A template declares one of two categories: \<^verbatim>\<open>'model'\<close> for a model type
  and \<^verbatim>\<open>'preprocessing'\<close> for every other type, \<^verbatim>\<open>train_test_split\<close> included; so the
  category agrees with the kind of every step type but \<^verbatim>\<open>train_test_split\<close>.
\<close>

theorem step_type_partition:
  "(t = Pre standard_scaler \<or> t = Pre min_max_scaler \<or> t = Pre drop_nulls \<or>
    t = train_test_split \<or> t = Mdl logistic_regression \<or> t = Mdl decision_tree_classifier)
   \<and> (kind_of t = KPreprocessing \<longleftrightarrow>
        t \<in> {Pre standard_scaler, Pre min_max_scaler, Pre drop_nulls})
   \<and> (kind_of t = KSplit \<longleftrightarrow> t = train_test_split)
   \<and> (kind_of t = KModel \<longleftrightarrow> t \<in> {Mdl logistic_regression, Mdl decision_tree_classifier})
   \<and> category (STEP_TEMPLATES t) = (if kind_of t = KModel then model else preprocessing)
   \<and> (category_kind (category (STEP_TEMPLATES t)) = kind_of t \<longleftrightarrow> t \<noteq> train_test_split)"
proof (cases t)
  case (Pre p)
  then show ?thesis by (cases p) simp_all
next
  case train_test_split
  then show ?thesis by simp
next
  case (Mdl m)
  then show ?thesis by (cases m) simp_all
qed

text \<open>
  C4. The template of \<^verbatim>\<open>train_test_split\<close> has \<^verbatim>\<open>test_size\<close> 0.2 as its only default
  parameter, and the split size of the initial state is 0.2. The split step that
  \<^verbatim>\<open>runPipeline\<close> builds stands right after the preprocessing steps and carries the
  split size of the state as \<^verbatim>\<open>test_size\<close>: 0.2 in the initial state. A
  \<^verbatim>\<open>min_max_scaler\<close> step, when added, is the last preprocessing step and carries
  \<^verbatim>\<open>feature_range\<close> with the pair \<^verbatim>\<open>'0,1'\<close>, the range from 0 to 1.
\<close>

theorem default_parameters:
  "defaultParams (STEP_TEMPLATES train_test_split) = [(''test_size'', JNum (Finite 0.2))]
   \<and> testSize initial_state = Finite 0.2
   \<and> fullSteps s m ! length (preprocessingSteps s) =
       \<lparr>step_id = ''split'', step_type = train_test_split,
        params = [(''test_size'', JNum (testSize s))]\<rparr>
   \<and> fullSteps initial_state m =
       [\<lparr>step_id = ''split'', step_type = train_test_split,
         params = [(''test_size'', JNum (Finite 0.2))]\<rparr>, m]
   \<and> preprocessingSteps (addPreprocessingStep min_max_scaler rid s) =
       preprocessingSteps s @
       [\<lparr>step_id = rid, step_type = Pre min_max_scaler,
         params = [(''feature_range'', JStr ''0,1'')]\<rparr>]"
  by (simp add: initial_state_def fullSteps_def addPreprocessingStep_def nth_append)

section \<open>The grade of an accuracy\<close>

text \<open>
  C10. Whatever number \<^verbatim>\<open>parseFloat\<close> returns for the accuracy string without its first
  percent sign, the grade is one of three: Excellent exactly when the number is at
  least 90; Good exactly when it is at least 70 and below 90; Needs Improvement exactly
  in the other cases, which are a number below 70 and no number at all (NaN).
\<close>

theorem grade_classification:
  "(grade (ResultExplanation parseFloat accuracy) = ''Excellent''
      \<longleftrightarrow> js_ge (parseFloat (remove1 (CHR ''%'') accuracy)) 90)
   \<and> (grade (ResultExplanation parseFloat accuracy) = ''Good''
      \<longleftrightarrow> js_ge (parseFloat (remove1 (CHR ''%'') accuracy)) 70
          \<and> js_lt (parseFloat (remove1 (CHR ''%'') accuracy)) 90)
   \<and> (grade (ResultExplanation parseFloat accuracy) = ''Needs Improvement''
      \<longleftrightarrow> parseFloat (remove1 (CHR ''%'') accuracy) = NaN
          \<or> js_lt (parseFloat (remove1 (CHR ''%'') accuracy)) 70)
   \<and> (grade (ResultExplanation parseFloat accuracy) = ''Excellent''
      \<or> grade (ResultExplanation parseFloat accuracy) = ''Good''
      \<or> grade (ResultExplanation parseFloat accuracy) = ''Needs Improvement'')"
  by (cases "parseFloat (remove1 (CHR ''%'') accuracy)")
    (simp_all add: ResultExplanation_def Let_def)

section \<open>The wizard's step\<close>

lemma wizard_steps_length: "int (length WIZARD_STEPS) = 5"
  by (simp add: WIZARD_STEPS_def)

lemma currentStep_runPipeline: "currentStep (runPipeline f s) = currentStep s"
  by (simp add: runPipeline_def split: option.splits)

lemma currentStep_handleNext:
  "currentStep (handleNext f s) =
     (if currentStep s < int (length WIZARD_STEPS) then currentStep s + 1 else currentStep s)"
  by (simp add: handleNext_def Let_def currentStep_runPipeline)

lemma currentStep_handleFileChange: "currentStep (handleFileChange u s) = currentStep s"
  by (cases u) simp_all

lemma currentStep_updateModelParam: "currentStep (updateModelParam p v s) = currentStep s"
  by (simp add: updateModelParam_def split: option.splits)

lemma handle_keeps_range:
  assumes "1 \<le> currentStep s \<and> currentStep s \<le> 5"
  shows "1 \<le> currentStep (handle e s) \<and> currentStep (handle e s) \<le> 5"
proof (cases e)
  case (Next f)
  with assms show ?thesis
    by (simp add: currentStep_handleNext wizard_steps_length)
next
  case Back
  with assms show ?thesis by (simp add: handleBack_def)
next
  case StartOver
  then show ?thesis by (simp add: startOver_def)
next
  case (FileChange u)
  with assms show ?thesis by (simp add: currentStep_handleFileChange)
next
  case (UpdateModelParam p v)
  with assms show ?thesis by (simp add: currentStep_updateModelParam)
qed (use assms in \<open>simp_all add: addPreprocessingStep_def removePreprocessingStep_def
      updatePreprocessingParam_def selectModel_def setTestSize_def changeDataset_def\<close>)

lemma reachable_range: "reachable s \<Longrightarrow> 1 \<le> currentStep s \<and> currentStep s \<le> 5"
proof (induction rule: reachable.induct)
  case start
  show ?case by (simp add: initial_state_def)
next
  case (after s e)
  from after.IH show ?case by (rule handle_keeps_range)
qed

text \<open>
  C9. In every state of the wizard the current step lies between 1 and 5. The wizard
  has five steps; \<^verbatim>\<open>handleNext\<close> adds one to the current step while it is below their
  number and leaves it otherwise, \<^verbatim>\<open>handleBack\<close> takes one off while it is above 1
  and leaves it otherwise, and Start Over sets it to 1.
\<close>

theorem current_step_range:
  "(reachable s \<longrightarrow> 1 \<le> currentStep s \<and> currentStep s \<le> 5)
   \<and> int (length WIZARD_STEPS) = 5
   \<and> currentStep (handleNext f s) =
       (if currentStep s < int (length WIZARD_STEPS) then currentStep s + 1 else currentStep s)
   \<and> currentStep (handleBack s) =
       (if 1 < currentStep s then currentStep s - 1 else currentStep s)
   \<and> currentStep (startOver s) = 1"
  using reachable_range [of s] currentStep_handleNext [of f s]
  by (simp add: wizard_steps_length handleBack_def startOver_def)

text \<open>Next, pressed in the initial state, leads to step 2.\<close>

theorem current_step_range_witness:
  "reachable (handle (Next (Threw ''offline'')) initial_state)
   \<and> 1 \<le> currentStep (handle (Next (Threw ''offline'')) initial_state)
   \<and> currentStep (handle (Next (Threw ''offline'')) initial_state) \<le> 5
   \<and> currentStep (handle (Next (Threw ''offline'')) initial_state) = 2"
proof -
  have r: "reachable (handle (Next (Threw ''offline'')) initial_state)"
    by (rule reachable.after) (rule reachable.start)
  have "currentStep (handle (Next (Threw ''offline'')) initial_state) = 2"
    by (simp add: initial_state_def handleNext_def WIZARD_STEPS_def)
  with r current_step_range [of "handle (Next (Threw ''offline'')) initial_state"]
  show ?thesis by simp
qed

section \<open>The steps of a request\<close>

lemma is_preprocessing_iff:
  "is_preprocessing t \<longleftrightarrow> t \<in> {Pre standard_scaler, Pre min_max_scaler, Pre drop_nulls}"
proof (cases t)
  case (Pre p)
  then show ?thesis by (cases p) simp_all
qed simp_all

lemma is_model_iff:
  "is_model t \<longleftrightarrow> t \<in> {Mdl logistic_regression, Mdl decision_tree_classifier}"
proof (cases t)
  case (Mdl m)
  then show ?thesis by (cases m) simp_all
qed simp_all

lemma typed_handle:
  assumes "typed s"
  shows "typed (handle e s)"
proof (cases e)
  case (Next f)
  with assms show ?thesis
    by (auto simp: typed_def handleNext_def runPipeline_def Let_def split: option.splits)
next
  case (FileChange u)
  with assms show ?thesis by (cases u) (simp_all add: typed_def)
next
  case (UpdateStepParam i p v)
  with assms show ?thesis
    by (auto simp: typed_def updatePreprocessingParam_def list_all_iff split: option.splits)
next
  case (UpdateModelParam p v)
  with assms show ?thesis
    by (auto simp: typed_def updateModelParam_def split: option.splits)
next
  case (RemoveStep i)
  with assms show ?thesis
    by (auto simp: typed_def removePreprocessingStep_def list_all_iff split: option.splits)
qed (use assms in \<open>auto simp: typed_def handleBack_def startOver_def addPreprocessingStep_def
      selectModel_def setTestSize_def changeDataset_def split: option.splits\<close>)

lemma reachable_typed: "reachable s \<Longrightarrow> typed s"
proof (induction rule: reachable.induct)
  case start
  show ?case by (simp add: typed_def initial_state_def)
next
  case (after s e)
  from after.IH show ?case by (rule typed_handle)
qed

text \<open>
  C1. The step list of every request that \<^verbatim>\<open>runPipeline\<close> sends from a state of the
  wizard is the preprocessing steps of the state, each of type \<^verbatim>\<open>standard_scaler\<close>,
  \<^verbatim>\<open>min_max_scaler\<close> or \<^verbatim>\<open>drop_nulls\<close>, then one \<^verbatim>\<open>train_test_split\<close> step, then
  one step of a model type, and it has no other split or model step: the split step
  stands before the model step.
\<close>

theorem submitted_steps_shape:
  assumes "reachable s" and "request s = Some rq"
  shows "\<exists>sp m. steps rq = preprocessingSteps s @ [sp, m]
           \<and> list_all (\<lambda>st. step_type st \<in> {Pre standard_scaler, Pre min_max_scaler, Pre drop_nulls})
               (preprocessingSteps s)
           \<and> step_type sp = train_test_split
           \<and> step_type m \<in> {Mdl logistic_regression, Mdl decision_tree_classifier}
           \<and> length (filter (\<lambda>st. step_type st = train_test_split) (steps rq)) = 1
           \<and> length (filter (\<lambda>st. is_model (step_type st)) (steps rq)) = 1"
proof -
  from assms(2) obtain m where m: "selectedModel s = Some m" and rq: "steps rq = fullSteps s m"
    by (auto simp: request_def split: option.splits)
  from assms(1) have t: "typed s" by (rule reachable_typed)
  from t have pre: "list_all (\<lambda>st. is_preprocessing (step_type st)) (preprocessingSteps s)"
    by (simp add: typed_def)
  from t m have mm: "is_model (step_type m)" by (simp add: typed_def)
  from pre have nosplit: "filter (\<lambda>st. step_type st = train_test_split) (preprocessingSteps s) = []"
    by (auto simp: list_all_iff filter_empty_conv)
  from pre have nomodel: "filter (\<lambda>st. is_model (step_type st)) (preprocessingSteps s) = []"
    by (auto simp: list_all_iff filter_empty_conv is_preprocessing_iff)
  let ?sp = "\<lparr>step_id = ''split'', step_type = train_test_split,
              params = [(''test_size'', JNum (testSize s))]\<rparr>"
  have "steps rq = preprocessingSteps s @ [?sp, m]"
    by (simp add: rq fullSteps_def)
  moreover from pre have "list_all (\<lambda>st. step_type st \<in> {Pre standard_scaler, Pre min_max_scaler, Pre drop_nulls})
               (preprocessingSteps s)"
    by (simp add: is_preprocessing_iff)
  moreover have "step_type ?sp = train_test_split" by simp
  moreover from mm have "step_type m \<in> {Mdl logistic_regression, Mdl decision_tree_classifier}"
    by (simp add: is_model_iff)
  moreover from mm nosplit have "length (filter (\<lambda>st. step_type st = train_test_split) (steps rq)) = 1"
    by (auto simp: rq fullSteps_def)
  moreover from mm nomodel have "length (filter (\<lambda>st. is_model (step_type st)) (steps rq)) = 1"
    by (simp add: rq fullSteps_def)
  ultimately show ?thesis by blast
qed

text \<open>A request with one preprocessing step, sent after a model was selected.\<close>

theorem submitted_steps_shape_witness:
  "reachable (handle (SelectModel decision_tree_classifier)
               (handle (AddStep drop_nulls ''k3j9x2m1q'') initial_state))
   \<and> request (handle (SelectModel decision_tree_classifier)
               (handle (AddStep drop_nulls ''k3j9x2m1q'') initial_state)) =
       Some \<lparr>datasetName = ''Unknown'',
             steps =
               [\<lparr>step_id = ''k3j9x2m1q'', step_type = Pre drop_nulls,
                 params = [(''axis'', JNum (Finite 0))]\<rparr>,
                \<lparr>step_id = ''split'', step_type = train_test_split,
                 params = [(''test_size'', JNum (Finite 0.2))]\<rparr>,
                \<lparr>step_id = ''model-step'', step_type = Mdl decision_tree_classifier,
                 params = [(''max_depth'', JNum (Finite 5))]\<rparr>]\<rparr>
   \<and> (\<exists>sp m.
         [\<lparr>step_id = ''k3j9x2m1q'', step_type = Pre drop_nulls,
           params = [(''axis'', JNum (Finite 0))]\<rparr>,
          \<lparr>step_id = ''split'', step_type = train_test_split,
           params = [(''test_size'', JNum (Finite 0.2))]\<rparr>,
          \<lparr>step_id = ''model-step'', step_type = Mdl decision_tree_classifier,
           params = [(''max_depth'', JNum (Finite 5))]\<rparr>] =
         [\<lparr>step_id = ''k3j9x2m1q'', step_type = Pre drop_nulls,
           params = [(''axis'', JNum (Finite 0))]\<rparr>] @ [sp, m]
         \<and> step_type sp = train_test_split
         \<and> step_type m \<in> {Mdl logistic_regression, Mdl decision_tree_classifier})"
proof -
  let ?s = "handle (SelectModel decision_tree_classifier)
              (handle (AddStep drop_nulls ''k3j9x2m1q'') initial_state)"
  let ?rq = "\<lparr>datasetName = ''Unknown'',
             steps =
               [\<lparr>step_id = ''k3j9x2m1q'', step_type = Pre drop_nulls,
                 params = [(''axis'', JNum (Finite 0))]\<rparr>,
                \<lparr>step_id = ''split'', step_type = train_test_split,
                 params = [(''test_size'', JNum (Finite 0.2))]\<rparr>,
                \<lparr>step_id = ''model-step'', step_type = Mdl decision_tree_classifier,
                 params = [(''max_depth'', JNum (Finite 5))]\<rparr>]\<rparr>"
  have r: "reachable ?s"
    by (intro reachable.after reachable.start)
  have q: "request ?s = Some ?rq"
    by (simp add: request_def fullSteps_def selectModel_def addPreprocessingStep_def
        initial_state_def)
  have p: "preprocessingSteps ?s =
             [\<lparr>step_id = ''k3j9x2m1q'', step_type = Pre drop_nulls,
               params = [(''axis'', JNum (Finite 0))]\<rparr>]"
    by (simp add: selectModel_def addPreprocessingStep_def initial_state_def)
  from submitted_steps_shape [OF r q] obtain sp m where
    "steps ?rq = preprocessingSteps ?s @ [sp, m]" "step_type sp = train_test_split"
    "step_type m \<in> {Mdl logistic_regression, Mdl decision_tree_classifier}"
    by blast
  with p have "\<exists>sp m. steps ?rq =
         [\<lparr>step_id = ''k3j9x2m1q'', step_type = Pre drop_nulls,
           params = [(''axis'', JNum (Finite 0))]\<rparr>] @ [sp, m]
         \<and> step_type sp = train_test_split
         \<and> step_type m \<in> {Mdl logistic_regression, Mdl decision_tree_classifier}"
    by metis
  with r q show ?thesis by simp
qed

section \<open>A run that fails\<close>

lemma results_view_failed:
  assumes "\<not> isRunning s" and "results s = Some r" and "\<not> success r"
  shows "results_view parseFloat s = Inr [ErrorBox (message r), LogsConsole (logs r)]"
  using assms by (simp add: results_view_def result_view_def result_blocks_def mount_def)

lemma handleNext_run:
  assumes "currentStep s = 4" and "selectedModel s = Some m"
  shows "handleNext f s = s\<lparr>isRunning := False, results := Some (fetched f), currentStep := 5\<rparr>"
  using assms by (simp add: handleNext_def runPipeline_def WIZARD_STEPS_def)

lemma run_failed_fetched: "run_failed f \<Longrightarrow> \<not> success (fetched f)"
  by (cases f) (simp_all add: failed_def)

text \<open>
  C2. When Run Training is pressed on step 4 with a model selected and the run fails
  (the server answers a result without \<^verbatim>\<open>success\<close>, or the request answers a status
  that is not ok or throws), the wizard is on step 5 and no longer running, its result
  has \<^verbatim>\<open>success\<close> false, and the results view is the message of the result followed by
  all the log lines of the result. The result is the server's own when it answered one;
  when the request errors it is the message \<^verbatim>\<open>Failed to execute pipeline\<close> with one
  log line, \<^verbatim>\<open>Error:\<close> and the message of the error.
\<close>

theorem failed_run_shown:
  assumes "currentStep s = 4" and "selectedModel s = Some m" and "run_failed f"
  shows "currentStep (handleNext f s) = 5
     \<and> \<not> isRunning (handleNext f s)
     \<and> results (handleNext f s) = Some (fetched f)
     \<and> \<not> success (fetched f)
     \<and> results_view parseFloat (handleNext f s) =
         Inr [ErrorBox (message (fetched f)), LogsConsole (logs (fetched f))]
     \<and> fetched (Responded r) = r
     \<and> fetched (NotOk status) =
         \<lparr>success = False, message = ''Failed to execute pipeline'', metrics = [],
          logs = [''Error: Server status: '' @ decimal status], model_path = None\<rparr>
     \<and> fetched (Threw msg) =
         \<lparr>success = False, message = ''Failed to execute pipeline'', metrics = [],
          logs = [''Error: '' @ msg], model_path = None\<rparr>"
proof -
  note n = handleNext_run [OF assms(1,2), of f]
  have f: "\<not> success (fetched f)" using assms(3) by (rule run_failed_fetched)
  have v: "results_view parseFloat (handleNext f s) =
         Inr [ErrorBox (message (fetched f)), LogsConsole (logs (fetched f))]"
    by (rule results_view_failed [where r = "fetched f"]) (simp_all add: n f)
  show ?thesis using f v by (simp add: n failed_def)
qed

text \<open>A failure that the server reports, with the two log lines written before it.\<close>

theorem failed_run_shown_witness:
  "currentStep (handle (SelectModel logistic_regression)
          (handle (Next (Threw [])) (handle (Next (Threw [])) (handle (Next (Threw [])) initial_state)))) = 4
   \<and> selectedModel (handle (SelectModel logistic_regression)
          (handle (Next (Threw [])) (handle (Next (Threw [])) (handle (Next (Threw [])) initial_state)))) =
       Some \<lparr>step_id = ''model-step'', step_type = Mdl logistic_regression,
             params = [(''C'', JNum (Finite 1))]\<rparr>
   \<and> run_failed (Responded \<lparr>success = False, message = ''Not enough rows after drop_nulls'',
         metrics = [], logs = [''Loaded 12 rows'', ''drop_nulls: 12 -> 0 rows''],
         model_path = None\<rparr>)
   \<and> results_view (\<lambda>acc. NaN)
        (handleNext (Responded \<lparr>success = False, message = ''Not enough rows after drop_nulls'',
            metrics = [], logs = [''Loaded 12 rows'', ''drop_nulls: 12 -> 0 rows''],
            model_path = None\<rparr>)
          (handle (SelectModel logistic_regression)
            (handle (Next (Threw [])) (handle (Next (Threw [])) (handle (Next (Threw [])) initial_state))))) =
       Inr [ErrorBox ''Not enough rows after drop_nulls'',
            LogsConsole [''Loaded 12 rows'', ''drop_nulls: 12 -> 0 rows'']]"
proof -
  let ?s = "handle (SelectModel logistic_regression)
          (handle (Next (Threw [])) (handle (Next (Threw [])) (handle (Next (Threw [])) initial_state)))"
  let ?m = "\<lparr>step_id = ''model-step'', step_type = Mdl logistic_regression,
             params = [(''C'', JNum (Finite 1))]\<rparr>"
  let ?f = "Responded \<lparr>success = False, message = ''Not enough rows after drop_nulls'',
         metrics = [], logs = [''Loaded 12 rows'', ''drop_nulls: 12 -> 0 rows''],
         model_path = None\<rparr>"
  have c: "currentStep ?s = 4"
    by (simp add: selectModel_def handleNext_def initial_state_def WIZARD_STEPS_def)
  have m: "selectedModel ?s = Some ?m"
    by (simp add: selectModel_def)
  have f: "run_failed ?f" by simp
  from failed_run_shown [OF c m f, of "\<lambda>acc. NaN"] c m f show ?thesis by simp
qed

section \<open>The correlation heatmap\<close>

lemma concat_rows_length:
  "list_all (\<lambda>row. length row = n) xss \<Longrightarrow> length (concat xss) = length xss * n"
  by (induction xss) simp_all

lemma concat_rows_nth:
  "list_all (\<lambda>row. length row = n) xss \<Longrightarrow> i < length xss \<Longrightarrow> j < n \<Longrightarrow>
     concat xss ! (i * n + j) = xss ! i ! j"
proof (induction xss arbitrary: i)
  case Nil
  then show ?case by simp
next
  case (Cons row xss)
  show ?case
  proof (cases i)
    case 0
    with Cons.prems show ?thesis by (simp add: nth_append)
  next
    case (Suc k)
    with Cons.prems have "concat xss ! (k * n + j) = xss ! k ! j"
      by (intro Cons.IH) simp_all
    with Suc Cons.prems show ?thesis by (simp add: nth_append add.assoc)
  qed
qed

lemma grid_index: "i < n \<Longrightarrow> j < n \<Longrightarrow> i * n + j < n * (n::nat)"
proof -
  assume a: "i < n" "j < n"
  then have "i * n + j < i * n + n" by simp
  also have "\<dots> = Suc i * n" by simp
  also from a have "\<dots> \<le> n * n" by (metis Suc_leI mult_le_mono1)
  finally show ?thesis .
qed

lemma heat_cell_shows:
  "heat_cell v =
     \<lparr>alpha = Math_abs v, ink = (if js_gt (Math_abs v) 0.5 then ''white'' else ''black''),
      cell_figure = Number_toFixed 1 v\<rparr>"
  by (simp add: heat_cell_def)

text \<open>
  C6, as the claim states it, fails: the grid has one cell for each value of the matrix,
  whatever the number of labels. A metadata with two labels and a matrix of one row of
  three values gives a grid of two columns with three cells, not two by two.
\<close>

theorem ragged_matrix_counterexample:
  "length (labels \<lparr>labels = [''a'', ''b''],
                   corr_data = [[Finite 1, Finite 0.5, Finite 0.2]]\<rparr>) \<le> 8
   \<and> heatmap (sample_metadata []
        (Some \<lparr>labels = [''a'', ''b''], corr_data = [[Finite 1, Finite 0.5, Finite 0.2]]\<rparr>)) =
       Some (Grid 2
         [\<lparr>alpha = Finite 1, ink = ''white'', cell_figure = NumToFixed 1 1\<rparr>,
          \<lparr>alpha = Finite 0.5, ink = ''black'', cell_figure = NumToFixed 1 0.5\<rparr>,
          \<lparr>alpha = Finite 0.2, ink = ''black'', cell_figure = NumToFixed 1 0.2\<rparr>])
   \<and> length
         [\<lparr>alpha = Finite 1, ink = ''white'', cell_figure = NumToFixed 1 1\<rparr>,
          \<lparr>alpha = Finite 0.5, ink = ''black'', cell_figure = NumToFixed 1 0.5\<rparr>,
          \<lparr>alpha = Finite 0.2, ink = ''black'', cell_figure = NumToFixed 1 0.2\<rparr>] \<noteq>
       length [''a'', ''b''] * length [''a'', ''b'']"
  by (simp add: heatmap_def sample_metadata_def heat_cell_def)

text \<open>
  C6, amended. For a metadata with correlations: with more than 8 labels the heatmap is
  the notice \<^verbatim>\<open>Too many features.\<close> and no grid, the correlations and their labels
  being still in the metadata; with 8 labels or fewer it is a grid with one column for
  each label and one cell for each value of the matrix, row after row, a cell showing
  its value to one decimal, on a background as opaque as the magnitude of the value, in
  white ink when the magnitude is above 0.5 and in black ink otherwise. When moreover
  the matrix has one row for each label and one value for each label in every row, the
  grid is the full one, labels by labels: it has labels times labels cells, and the
  cell of row \<open>i\<close> and column \<open>j\<close> shows the value of row \<open>i\<close> and column \<open>j\<close> of the
  matrix.
\<close>

theorem heatmap_rendering:
  assumes "correlations md = Some c"
  shows "(8 < length (labels c) \<longrightarrow> heatmap md = Some (Notice ''Too many features.''))
     \<and> (length (labels c) \<le> 8 \<longrightarrow>
          heatmap md =
            Some (Grid (length (labels c))
              (map (\<lambda>v. \<lparr>alpha = Math_abs v,
                         ink = (if js_gt (Math_abs v) 0.5 then ''white'' else ''black''),
                         cell_figure = Number_toFixed 1 v\<rparr>)
                 (concat (corr_data c)))))
     \<and> (length (labels c) \<le> 8
          \<and> length (corr_data c) = length (labels c)
          \<and> list_all (\<lambda>row. length row = length (labels c)) (corr_data c) \<longrightarrow>
          (\<exists>cells. heatmap md = Some (Grid (length (labels c)) cells)
             \<and> length cells = length (labels c) * length (labels c)
             \<and> (\<forall>i<length (labels c). \<forall>j<length (labels c).
                  cells ! (i * length (labels c) + j) =
                    \<lparr>alpha = Math_abs (corr_data c ! i ! j),
                     ink = (if js_gt (Math_abs (corr_data c ! i ! j)) 0.5
                            then ''white'' else ''black''),
                     cell_figure = Number_toFixed 1 (corr_data c ! i ! j)\<rparr>)))"
proof (intro conjI impI)
  assume "8 < length (labels c)"
  with assms show "heatmap md = Some (Notice ''Too many features.'')"
    by (simp add: heatmap_def)
next
  assume "length (labels c) \<le> 8"
  with assms show "heatmap md =
            Some (Grid (length (labels c))
              (map (\<lambda>v. \<lparr>alpha = Math_abs v,
                         ink = (if js_gt (Math_abs v) 0.5 then ''white'' else ''black''),
                         cell_figure = Number_toFixed 1 v\<rparr>)
                 (concat (corr_data c))))"
    by (simp add: heatmap_def heat_cell_def)
next
  let ?n = "length (labels c)"
  let ?cells = "map heat_cell (concat (corr_data c))"
  assume a: "?n \<le> 8 \<and> length (corr_data c) = ?n
      \<and> list_all (\<lambda>row. length row = ?n) (corr_data c)"
  with assms have h: "heatmap md = Some (Grid ?n ?cells)"
    by (simp add: heatmap_def)
  from a have l: "length (concat (corr_data c)) = ?n * ?n"
    using concat_rows_length [of ?n "corr_data c"] by simp
  have "?cells ! (i * ?n + j) =
          \<lparr>alpha = Math_abs (corr_data c ! i ! j),
           ink = (if js_gt (Math_abs (corr_data c ! i ! j)) 0.5 then ''white'' else ''black''),
           cell_figure = Number_toFixed 1 (corr_data c ! i ! j)\<rparr>"
    if i: "i < ?n" and j: "j < ?n" for i j
  proof -
    from i j have "i * ?n + j < ?n * ?n" by (rule grid_index)
    with l have "?cells ! (i * ?n + j) = heat_cell (concat (corr_data c) ! (i * ?n + j))"
      by simp
    also from a i j have "concat (corr_data c) ! (i * ?n + j) = corr_data c ! i ! j"
      by (intro concat_rows_nth) simp_all
    finally have "?cells ! (i * ?n + j) = heat_cell (corr_data c ! i ! j)" .
    then show ?thesis by (simp only: heat_cell_shows)
  qed
  with h l show "\<exists>cells. heatmap md = Some (Grid ?n cells)
             \<and> length cells = ?n * ?n
             \<and> (\<forall>i<?n. \<forall>j<?n.
                  cells ! (i * ?n + j) =
                    \<lparr>alpha = Math_abs (corr_data c ! i ! j),
                     ink = (if js_gt (Math_abs (corr_data c ! i ! j)) 0.5
                            then ''white'' else ''black''),
                     cell_figure = Number_toFixed 1 (corr_data c ! i ! j)\<rparr>)"
    by (intro exI [of _ ?cells]) simp
qed

text \<open>
  Nine labels give the notice; two labels with a matrix of two rows of two values give
  the grid of four cells, the second row starting at the third cell.
\<close>

theorem heatmap_rendering_witness:
  "correlations (sample_metadata []
      (Some \<lparr>labels = [''f1'', ''f2'', ''f3'', ''f4'', ''f5'', ''f6'', ''f7'', ''f8'', ''f9''],
             corr_data = replicate 9 (replicate 9 (Finite 1))\<rparr>)) =
     Some \<lparr>labels = [''f1'', ''f2'', ''f3'', ''f4'', ''f5'', ''f6'', ''f7'', ''f8'', ''f9''],
           corr_data = replicate 9 (replicate 9 (Finite 1))\<rparr>
   \<and> heatmap (sample_metadata []
      (Some \<lparr>labels = [''f1'', ''f2'', ''f3'', ''f4'', ''f5'', ''f6'', ''f7'', ''f8'', ''f9''],
             corr_data = replicate 9 (replicate 9 (Finite 1))\<rparr>)) =
     Some (Notice ''Too many features.'')
   \<and> correlations (sample_metadata []
      (Some \<lparr>labels = [''a'', ''b''],
             corr_data = [[Finite 1, Finite (- 0.7)], [Finite 0.3, Finite 1]]\<rparr>)) =
     Some \<lparr>labels = [''a'', ''b''],
           corr_data = [[Finite 1, Finite (- 0.7)], [Finite 0.3, Finite 1]]\<rparr>
   \<and> list_all (\<lambda>row. length row = 2) [[Finite 1, Finite (- 0.7)], [Finite 0.3, Finite 1]]
   \<and> heatmap (sample_metadata []
      (Some \<lparr>labels = [''a'', ''b''],
             corr_data = [[Finite 1, Finite (- 0.7)], [Finite 0.3, Finite 1]]\<rparr>)) =
     Some (Grid 2
       [\<lparr>alpha = Finite 1, ink = ''white'', cell_figure = NumToFixed 1 1\<rparr>,
        \<lparr>alpha = Finite 0.7, ink = ''white'', cell_figure = NumToFixed 1 (- 0.7)\<rparr>,
        \<lparr>alpha = Finite 0.3, ink = ''black'', cell_figure = NumToFixed 1 0.3\<rparr>,
        \<lparr>alpha = Finite 1, ink = ''white'', cell_figure = NumToFixed 1 1\<rparr>])
   \<and> (\<exists>cells. heatmap (sample_metadata []
          (Some \<lparr>labels = [''a'', ''b''],
                 corr_data = [[Finite 1, Finite (- 0.7)], [Finite 0.3, Finite 1]]\<rparr>)) =
          Some (Grid 2 cells)
        \<and> length cells = 2 * 2
        \<and> cells ! (1 * 2 + 0) =
            \<lparr>alpha = Finite 0.3, ink = ''black'', cell_figure = NumToFixed 1 0.3\<rparr>)"
proof -
  let ?c9 = "\<lparr>labels = [''f1'', ''f2'', ''f3'', ''f4'', ''f5'', ''f6'', ''f7'', ''f8'', ''f9''],
             corr_data = replicate 9 (replicate 9 (Finite 1))\<rparr>"
  let ?c2 = "\<lparr>labels = [''a'', ''b''],
             corr_data = [[Finite 1, Finite (- 0.7)], [Finite 0.3, Finite 1]]\<rparr>"
  have m9: "correlations (sample_metadata [] (Some ?c9)) = Some ?c9"
    by (simp add: sample_metadata_def)
  have m2: "correlations (sample_metadata [] (Some ?c2)) = Some ?c2"
    by (simp add: sample_metadata_def)
  note t9 = heatmap_rendering [OF m9]
  note t2 = heatmap_rendering [OF m2]
  from t9 have a: "heatmap (sample_metadata [] (Some ?c9)) = Some (Notice ''Too many features.'')"
    by simp
  from t2 have b: "heatmap (sample_metadata [] (Some ?c2)) =
     Some (Grid 2
       [\<lparr>alpha = Finite 1, ink = ''white'', cell_figure = NumToFixed 1 1\<rparr>,
        \<lparr>alpha = Finite 0.7, ink = ''white'', cell_figure = NumToFixed 1 (- 0.7)\<rparr>,
        \<lparr>alpha = Finite 0.3, ink = ''black'', cell_figure = NumToFixed 1 0.3\<rparr>,
        \<lparr>alpha = Finite 1, ink = ''white'', cell_figure = NumToFixed 1 1\<rparr>])"
    by simp
  have sq: "length (labels ?c2) \<le> 8 \<and> length (corr_data ?c2) = length (labels ?c2)
      \<and> list_all (\<lambda>row. length row = length (labels ?c2)) (corr_data ?c2)"
    by simp
  from t2 [THEN conjunct2, THEN conjunct2, THEN mp, OF sq]
  obtain cells where c: "heatmap (sample_metadata [] (Some ?c2)) = Some (Grid 2 cells)"
    "length cells = 2 * 2"
    and c3: "\<forall>i<length (labels ?c2). \<forall>j<length (labels ?c2).
        cells ! (i * length (labels ?c2) + j) =
        \<lparr>alpha = Math_abs (corr_data ?c2 ! i ! j),
         ink = (if js_gt (Math_abs (corr_data ?c2 ! i ! j)) 0.5 then ''white'' else ''black''),
         cell_figure = Number_toFixed 1 (corr_data ?c2 ! i ! j)\<rparr>"
    by auto
  from c3 [rule_format, of 1 0] have d: "cells ! (1 * 2 + 0) =
      \<lparr>alpha = Finite 0.3, ink = ''black'', cell_figure = NumToFixed 1 0.3\<rparr>"
    by (simp add: numeral_2_eq_2)
  from c(1,2) d have e: "\<exists>cells. heatmap (sample_metadata [] (Some ?c2)) = Some (Grid 2 cells)
        \<and> length cells = 2 * 2
        \<and> cells ! (1 * 2 + 0) =
            \<lparr>alpha = Finite 0.3, ink = ''black'', cell_figure = NumToFixed 1 0.3\<rparr>"
    by blast
  from m9 m2 a b e show ?thesis by simp
qed

section \<open>The preview table\<close>

lemma collect_map_Inr:
  "(\<And>x. x \<in> set xs \<Longrightarrow> f x = Inr (g x)) \<Longrightarrow> collect (map f xs) = Inr (map g xs)"
  by (induction xs) simp_all

lemma not_isl_projr: "\<not> isl x \<Longrightarrow> x = Inr (projr x)"
  by (cases x) simp_all

lemma preview_cell_present:
  "v \<noteq> JUndefined \<Longrightarrow> v \<noteq> JNull \<Longrightarrow> preview_cell v = toString v"
  by (simp add: preview_cell_def)

lemma preview_row_cells:
  assumes "list_all (\<lambda>kv. \<not> isl (preview_cell (snd kv))) row"
  shows "collect (map preview_cell (map snd row)) =
           Inr (map (\<lambda>kv. projr (preview_cell (snd kv))) row)"
proof -
  have "collect (map (\<lambda>kv. preview_cell (snd kv)) row) =
          Inr (map (\<lambda>kv. projr (preview_cell (snd kv))) row)"
    using assms by (intro collect_map_Inr not_isl_projr) (simp add: list_all_iff)
  then show ?thesis by (simp add: comp_def)
qed

lemma preview_table_rows:
  assumes "preview md \<noteq> []"
    and "list_all (list_all (\<lambda>kv. \<not> isl (preview_cell (snd kv)))) (preview md)"
  shows "preview_table md =
           Inr (Some \<lparr>head_cells = map fst (hd (preview md)),
                      body_rows = map (map (\<lambda>kv. projr (preview_cell (snd kv)))) (preview md)\<rparr>)"
proof -
  have "collect (map (\<lambda>row. collect (map preview_cell (map snd row))) (preview md)) =
          Inr (map (map (\<lambda>kv. projr (preview_cell (snd kv)))) (preview md))"
    using assms(2) by (intro collect_map_Inr preview_row_cells) (simp add: list_all_iff)
  with assms(1) show ?thesis
    by (cases "preview md") (simp_all add: preview_table_def)
qed

text \<open>
  C7, as the claim states it, fails: a cell that holds a number that is not finite
  shows the name of the number, not the empty string.
\<close>

theorem non_finite_cell_counterexample:
  "preview_cell (JNum PosInfinity) = Inr (Str ''Infinity'')
   \<and> preview_cell (JNum PosInfinity) \<noteq> Inr (Str [])
   \<and> preview_cell (JNum NaN) = Inr (Str ''NaN'')
   \<and> preview_cell (JNum NaN) \<noteq> Inr (Str [])"
  by (simp add: preview_cell_def)

text \<open>
  C7, amended. A cell whose value is missing (\<^verbatim>\<open>undefined\<close> or \<^verbatim>\<open>null\<close>) shows the
  empty string; a cell with any other value shows the string conversion of the value:
  a finite number its digits, a string itself, a boolean its name, and a number that is
  not finite \<^verbatim>\<open>NaN\<close>, \<^verbatim>\<open>Infinity\<close> or \<^verbatim>\<open>-Infinity\<close>. For a preview with a row, all
  of whose cells convert, the head of the table is the keys of the first row and the
  body has one row for each row-map, with one cell for each value of the row-map, in
  the order of the row-map.
\<close>

theorem preview_rendering:
  "preview_cell JUndefined = Inr (Str [])
   \<and> preview_cell JNull = Inr (Str [])
   \<and> preview_cell (JNum (Finite x)) = Inr (NumToString x)
   \<and> preview_cell (JStr str) = Inr (Str str)
   \<and> preview_cell (JBool b) = Inr (Str (if b then ''true'' else ''false''))
   \<and> preview_cell (JNum NaN) = Inr (Str ''NaN'')
   \<and> preview_cell (JNum PosInfinity) = Inr (Str ''Infinity'')
   \<and> preview_cell (JNum NegInfinity) = Inr (Str ''-Infinity'')
   \<and> (v \<noteq> JUndefined \<and> v \<noteq> JNull \<longrightarrow> preview_cell v = toString v)
   \<and> (preview md \<noteq> []
        \<and> list_all (list_all (\<lambda>kv. \<not> isl (preview_cell (snd kv)))) (preview md) \<longrightarrow>
      preview_table md =
        Inr (Some \<lparr>head_cells = map fst (hd (preview md)),
                   body_rows = map (map (\<lambda>kv. projr (preview_cell (snd kv)))) (preview md)\<rparr>))"
  using preview_table_rows [of md] by (simp add: preview_cell_def)

text \<open>A preview of two rows, with a missing value and an infinite one.\<close>

theorem preview_rendering_witness:
  "JStr ''setosa'' \<noteq> JUndefined \<and> JStr ''setosa'' \<noteq> JNull
   \<and> preview_cell (JStr ''setosa'') = Inr (Str ''setosa'')
   \<and> preview (sample_metadata
        [[(''sepal_length'', JNum (Finite 5.1)), (''petal_width'', JNull), (''species'', JStr ''setosa'')],
         [(''sepal_length'', JNum PosInfinity), (''petal_width'', JNum (Finite 0.2)), (''species'', JStr ''virginica'')]]
        None) \<noteq> []
   \<and> preview_table (sample_metadata
        [[(''sepal_length'', JNum (Finite 5.1)), (''petal_width'', JNull), (''species'', JStr ''setosa'')],
         [(''sepal_length'', JNum PosInfinity), (''petal_width'', JNum (Finite 0.2)), (''species'', JStr ''virginica'')]]
        None) =
       Inr (Some \<lparr>head_cells = [''sepal_length'', ''petal_width'', ''species''],
                  body_rows = [[NumToString 5.1, Str [], Str ''setosa''],
                               [Str ''Infinity'', NumToString 0.2, Str ''virginica'']]\<rparr>)"
  using preview_rendering [of _ _ _ "JStr ''setosa''" "sample_metadata
        [[(''sepal_length'', JNum (Finite 5.1)), (''petal_width'', JNull), (''species'', JStr ''setosa'')],
         [(''sepal_length'', JNum PosInfinity), (''petal_width'', JNum (Finite 0.2)), (''species'', JStr ''virginica'')]]
        None"]
  by (simp add: sample_metadata_def preview_cell_def)

section \<open>The feature importance\<close>

lemma importance_entry_entry: "importance_entry (entry name x)"
  by (simp add: importance_entry_def entry_def property_def)

lemma member_importance:
  "importance_of f = Some n \<Longrightarrow> member f ''importance'' = Inr (JNum n)"
  by (cases f) (simp_all split: jsvalue.splits)

lemma member_feature:
  "importance_of f = Some n \<Longrightarrow> member f ''feature'' = Inr (feature_of f)"
  by (cases f) simp_all

lemma entry_importance:
  "importance_entry f \<Longrightarrow> importance_of f = Some (the (importance_of f))"
  by (auto simp: importance_entry_def)

lemma maxVal_entries:
  assumes "list_all importance_entry fs"
  shows "maxVal fs = Inr (Math_max (map (\<lambda>f. the (importance_of f)) fs))"
proof -
  have 1: "collect (map (\<lambda>f. member f ''importance'') fs) =
             Inr (map (\<lambda>f. JNum (the (importance_of f))) fs)"
    using assms
    by (intro collect_map_Inr member_importance entry_importance) (simp add: list_all_iff)
  have 2: "collect (map (ToNumber \<circ> (\<lambda>f. JNum (the (importance_of f)))) fs) =
             Inr (map (\<lambda>f. the (importance_of f)) fs)"
    by (intro collect_map_Inr) simp
  show ?thesis by (simp add: maxVal_def 1 2)
qed

lemma importance_row_entry:
  assumes "list_all importance_entry fs" and "importance_entry f"
  shows "importance_row fs f =
           Inr \<lparr>row_title = feature_of f, row_name = feature_of f,
                bar_importance = the (importance_of f),
                bar_maxVal = Math_max (map (\<lambda>g. the (importance_of g)) fs),
                figure = Number_toFixed 3 (the (importance_of f))\<rparr>"
  using member_importance [OF entry_importance [OF assms(2)]]
    member_feature [OF entry_importance [OF assms(2)]]
  by (simp add: importance_row_def maxVal_entries [OF assms(1)])

lemma feature_importance_block_entries:
  assumes "list_all importance_entry fs"
  shows "feature_importance_block (JArray fs) =
           Inr (FeatureImportance
             (map (\<lambda>f. \<lparr>row_title = feature_of f, row_name = feature_of f,
                        bar_importance = the (importance_of f),
                        bar_maxVal = Math_max (map (\<lambda>g. the (importance_of g)) fs),
                        figure = Number_toFixed 3 (the (importance_of f))\<rparr>)
                (take 10 fs)))"
proof -
  have "collect (map (importance_row fs) (take 10 fs)) =
          Inr (map (\<lambda>f. \<lparr>row_title = feature_of f, row_name = feature_of f,
                        bar_importance = the (importance_of f),
                        bar_maxVal = Math_max (map (\<lambda>g. the (importance_of g)) fs),
                        figure = Number_toFixed 3 (the (importance_of f))\<rparr>)
                (take 10 fs))"
  proof (intro collect_map_Inr importance_row_entry assms)
    fix f assume "f \<in> set (take 10 fs)"
    then have "f \<in> set fs" by (rule in_set_takeD)
    with assms show "importance_entry f" by (simp add: list_all_iff)
  qed
  then show ?thesis by (simp add: feature_importance_block_def)
qed

lemma max2_cases: "max2 a b = a \<or> max2 a b = b"
  by (cases a; cases b) (auto simp: max_def)

lemma max2_NegInfinity: "max2 NegInfinity b = b"
  by (cases b) simp_all

lemma foldl_max2_mem: "foldl max2 a xs \<in> insert a (set xs)"
proof (induction xs arbitrary: a)
  case Nil
  show ?case by simp
next
  case (Cons x xs)
  from Cons.IH [of "max2 a x"] max2_cases [of a x] show ?case by auto
qed

lemma Math_max_mem: "xs \<noteq> [] \<Longrightarrow> Math_max xs \<in> set xs"
proof (cases xs)
  case Nil
  assume "xs \<noteq> []"
  with Nil show ?thesis by simp
next
  case (Cons x ys)
  with foldl_max2_mem [of x ys] show ?thesis
    by (simp add: Math_max_def max2_NegInfinity)
qed

lemma max2_upper:
  "a \<noteq> NaN \<Longrightarrow> b \<noteq> NaN \<Longrightarrow>
     max2 a b \<noteq> NaN \<and> js_geq (max2 a b) a \<and> js_geq (max2 a b) b"
  by (cases a; cases b) simp_all

lemma js_geq_trans: "js_geq a b \<Longrightarrow> js_geq b c \<Longrightarrow> js_geq a c"
  by (cases a; cases b; cases c) simp_all

lemma foldl_max2_upper:
  "NaN \<notin> set xs \<Longrightarrow> a \<noteq> NaN \<Longrightarrow>
     js_geq (foldl max2 a xs) a \<and> (\<forall>x\<in>set xs. js_geq (foldl max2 a xs) x)"
proof (induction xs arbitrary: a)
  case Nil
  then show ?case by (cases a) simp_all
next
  case (Cons x xs)
  from Cons.prems have x: "x \<noteq> NaN" and xs: "NaN \<notin> set xs" by auto
  from max2_upper [OF Cons.prems(2) x]
  have m: "max2 a x \<noteq> NaN" "js_geq (max2 a x) a" "js_geq (max2 a x) x" by simp_all
  from Cons.IH [OF xs m(1)]
  have ih: "js_geq (foldl max2 (max2 a x) xs) (max2 a x)"
    "\<forall>y\<in>set xs. js_geq (foldl max2 (max2 a x) xs) y" by simp_all
  from ih(1) m(2) have "js_geq (foldl max2 (max2 a x) xs) a" by (rule js_geq_trans)
  moreover from ih(1) m(3) have "js_geq (foldl max2 (max2 a x) xs) x" by (rule js_geq_trans)
  ultimately show ?case using ih(2) by simp
qed

lemma Math_max_upper: "NaN \<notin> set xs \<Longrightarrow> x \<in> set xs \<Longrightarrow> js_geq (Math_max xs) x"
  using foldl_max2_upper [of xs NegInfinity] by (simp add: Math_max_def)

lemma sorted_take_drop:
  assumes "sorted_wrt P xs" and "a \<in> set (take n xs)" and "b \<in> set (drop n xs)"
  shows "P a b"
proof -
  from assms(1) have "sorted_wrt P (take n xs @ drop n xs)" by simp
  with assms(2,3) show ?thesis unfolding sorted_wrt_append by blast
qed

text \<open>
  C5. For a list of feature-importance entries, the chart has one row for each of the
  first ten entries, in their order, and so ten rows at most; the list itself is not
  changed, and every bar is scaled by the same maximum, \<^verbatim>\<open>Math.max\<close> of the
  importances of the whole list: an importance of the list when the list is not empty,
  and at least every importance of the list when none is NaN. When the list comes sorted
  by descending importance, as the server sends it, the rows are the top ten: every
  importance shown is at least every importance left out.
\<close>

theorem feature_importance_rows:
  assumes "list_all importance_entry fs"
  shows "feature_importance_block (JArray fs) =
           Inr (FeatureImportance
             (map (\<lambda>f. \<lparr>row_title = feature_of f, row_name = feature_of f,
                        bar_importance = the (importance_of f),
                        bar_maxVal = Math_max (map (\<lambda>g. the (importance_of g)) fs),
                        figure = Number_toFixed 3 (the (importance_of f))\<rparr>)
                (take 10 fs)))
     \<and> length (take 10 fs) = min 10 (length fs)
     \<and> (fs \<noteq> [] \<longrightarrow>
          Math_max (map (\<lambda>g. the (importance_of g)) fs) \<in> set (map (\<lambda>g. the (importance_of g)) fs))
     \<and> (NaN \<notin> set (map (\<lambda>g. the (importance_of g)) fs) \<longrightarrow>
          (\<forall>n\<in>set (map (\<lambda>g. the (importance_of g)) fs).
             js_geq (Math_max (map (\<lambda>g. the (importance_of g)) fs)) n))
     \<and> (sorted_wrt js_geq (map (\<lambda>g. the (importance_of g)) fs) \<longrightarrow>
          (\<forall>a\<in>set (take 10 (map (\<lambda>g. the (importance_of g)) fs)).
           \<forall>b\<in>set (drop 10 (map (\<lambda>g. the (importance_of g)) fs)). js_geq a b))"
proof (intro conjI impI ballI)
  show "feature_importance_block (JArray fs) =
           Inr (FeatureImportance
             (map (\<lambda>f. \<lparr>row_title = feature_of f, row_name = feature_of f,
                        bar_importance = the (importance_of f),
                        bar_maxVal = Math_max (map (\<lambda>g. the (importance_of g)) fs),
                        figure = Number_toFixed 3 (the (importance_of f))\<rparr>)
                (take 10 fs)))"
    using assms by (rule feature_importance_block_entries)
next
  show "length (take 10 fs) = min 10 (length fs)" by simp
next
  assume "fs \<noteq> []"
  then show "Math_max (map (\<lambda>g. the (importance_of g)) fs) \<in> set (map (\<lambda>g. the (importance_of g)) fs)"
    by (intro Math_max_mem) simp
next
  fix n
  assume "NaN \<notin> set (map (\<lambda>g. the (importance_of g)) fs)"
    and "n \<in> set (map (\<lambda>g. the (importance_of g)) fs)"
  then show "js_geq (Math_max (map (\<lambda>g. the (importance_of g)) fs)) n"
    by (rule Math_max_upper)
next
  fix a b
  assume "sorted_wrt js_geq (map (\<lambda>g. the (importance_of g)) fs)"
    and "a \<in> set (take 10 (map (\<lambda>g. the (importance_of g)) fs))"
    and "b \<in> set (drop 10 (map (\<lambda>g. the (importance_of g)) fs))"
  then show "js_geq a b" by (rule sorted_take_drop)
qed

text \<open>Eleven entries in descending order: ten rows, each scaled by the first importance.\<close>

theorem feature_importance_rows_witness:
  "list_all importance_entry
     [entry ''petal_length'' 0.3, entry ''petal_width'' 0.2, entry ''sepal_length'' 0.1,
      entry ''sepal_width'' 0.09, entry ''f5'' 0.08, entry ''f6'' 0.07, entry ''f7'' 0.06,
      entry ''f8'' 0.05, entry ''f9'' 0.03, entry ''f10'' 0.015, entry ''f11'' 0.005]
   \<and> sorted_wrt js_geq
        [Finite 0.3, Finite 0.2, Finite 0.1, Finite 0.09, Finite 0.08, Finite 0.07,
         Finite 0.06, Finite 0.05, Finite 0.03, Finite 0.015, Finite 0.005]
   \<and> feature_importance_block (JArray
     [entry ''petal_length'' 0.3, entry ''petal_width'' 0.2, entry ''sepal_length'' 0.1,
      entry ''sepal_width'' 0.09, entry ''f5'' 0.08, entry ''f6'' 0.07, entry ''f7'' 0.06,
      entry ''f8'' 0.05, entry ''f9'' 0.03, entry ''f10'' 0.015, entry ''f11'' 0.005]) =
     Inr (FeatureImportance
       (map (\<lambda>nx. \<lparr>row_title = JStr (fst nx), row_name = JStr (fst nx),
                   bar_importance = Finite (snd nx), bar_maxVal = Finite 0.3,
                   figure = NumToFixed 3 (snd nx)\<rparr>)
          [(''petal_length'', 0.3), (''petal_width'', 0.2), (''sepal_length'', 0.1),
           (''sepal_width'', 0.09), (''f5'', 0.08), (''f6'', 0.07), (''f7'', 0.06),
           (''f8'', 0.05), (''f9'', 0.03), (''f10'', 0.015)]))
   \<and> js_geq (Finite 0.015) (Finite 0.005)"
proof -
  let ?fs = "[entry ''petal_length'' 0.3, entry ''petal_width'' 0.2, entry ''sepal_length'' 0.1,
      entry ''sepal_width'' 0.09, entry ''f5'' 0.08, entry ''f6'' 0.07, entry ''f7'' 0.06,
      entry ''f8'' 0.05, entry ''f9'' 0.03, entry ''f10'' 0.015, entry ''f11'' 0.005]"
  have h: "list_all importance_entry ?fs"
    by (simp add: importance_entry_entry)
  have i: "the (importance_of (entry n x)) = Finite x" for n x
    by (simp add: entry_def property_def)
  have f: "feature_of (entry n x) = JStr n" for n x
    by (simp add: entry_def property_def)
  from feature_importance_rows [OF h] h show ?thesis
    by (simp add: i f Math_max_def)
qed

section \<open>The sections of the results\<close>

lemma falsy_valid_child: "\<not> truthy v \<Longrightarrow> valid_child v"
  by (cases v) simp_all

lemma truthy_present: "truthy (property m k) \<Longrightarrow> k \<in> fst ` set m"
  by (cases "map_of m k") (auto simp: property_def dest: map_of_SomeD intro: rev_image_eqI)

lemma explanation_ok:
  assumes "if truthy a then is_string a else True"
  shows "\<exists>n. when_truthy a (explanation_block parseFloat a) = Inr n
           \<and> list_all valid_child (children n)
           \<and> (is_explanation n \<longleftrightarrow> truthy a)
           \<and> \<not> is_feature_importance n \<and> \<not> is_confusion_matrix n"
proof (cases "truthy a")
  case True
  with assms obtain acc where "a = JStr acc" by (cases a) simp_all
  with True show ?thesis by (simp add: when_truthy_def explanation_block_def)
next
  case False
  then show ?thesis by (simp add: when_truthy_def falsy_valid_child)
qed

lemma feature_importance_ok:
  assumes "if truthy v then importance_list v else True"
  shows "\<exists>n. when_truthy v (feature_importance_block v) = Inr n
           \<and> list_all valid_child (children n)
           \<and> (is_feature_importance n \<longleftrightarrow> truthy v)
           \<and> \<not> is_explanation n \<and> \<not> is_confusion_matrix n"
proof (cases "truthy v")
  case True
  with assms obtain fs where v: "v = JArray fs" and fs: "list_all importance_entry fs"
    by (cases v) simp_all
  have "list_all (\<lambda>f. valid_child (feature_of f)) (take 10 fs)"
    using fs by (auto simp: list_all_iff importance_entry_def dest: in_set_takeD)
  then show ?thesis
    using True by (simp add: when_truthy_def v feature_importance_block_entries [OF fs]
        list_all_iff comp_def)
next
  case False
  then show ?thesis by (simp add: when_truthy_def falsy_valid_child)
qed

lemma matrix_row_numbers:
  assumes "number_row (snd ir)"
  shows "\<exists>cells. matrix_row ir = Inr cells \<and> list_all (\<lambda>c. valid_child (cell_value c)) cells"
proof -
  from assms obtain vals where r: "snd ir = JArray vals" and n: "list_all is_number vals"
    by (cases "snd ir") simp_all
  have "valid_child x" if "is_number x" for x using that by (cases x) simp_all
  with n have "list_all (\<lambda>cv. valid_child (snd cv)) (enumerate 0 vals)"
    by (auto simp: list_all_iff in_set_enumerate_eq)
  then show ?thesis by (simp add: matrix_row_def r list_all_iff)
qed

lemma collect_all_ok:
  assumes "\<And>x. x \<in> set xs \<Longrightarrow> \<exists>y. f x = Inr y \<and> P y"
  shows "\<exists>ys. collect (map f xs) = Inr ys \<and> list_all P ys"
  using assms
proof (induction xs)
  case Nil
  show ?case by simp
next
  case (Cons x xs)
  from Cons.prems obtain y where y: "f x = Inr y" "P y" by auto
  from Cons.IH Cons.prems obtain ys where ys: "collect (map f xs) = Inr ys" "list_all P ys"
    by auto
  from y ys show ?case by simp
qed

lemma confusion_matrix_ok:
  assumes "if truthy v then number_matrix v else True"
  shows "\<exists>n. when_truthy v (confusion_matrix_block v) = Inr n
           \<and> list_all valid_child (children n)
           \<and> (is_confusion_matrix n \<longleftrightarrow> truthy v)
           \<and> \<not> is_explanation n \<and> \<not> is_feature_importance n"
proof (cases "truthy v")
  case True
  with assms obtain rs where v: "v = JArray rs" and rs: "list_all number_row rs"
    by (cases v) simp_all
  have "\<exists>cells. collect (map matrix_row (enumerate 0 rs)) = Inr cells
          \<and> list_all (list_all (\<lambda>c. valid_child (cell_value c))) cells"
  proof (intro collect_all_ok matrix_row_numbers)
    fix ir assume "ir \<in> set (enumerate 0 rs)"
    then have "fst ir < length rs" and "snd ir = rs ! fst ir"
      by (auto simp: in_set_enumerate_eq)
    then have "snd ir \<in> set rs" by simp
    with rs show "number_row (snd ir)" by (simp add: list_all_iff)
  qed
  then obtain cells where c: "collect (map matrix_row (enumerate 0 rs)) = Inr cells"
    "list_all (list_all (\<lambda>c. valid_child (cell_value c))) cells" by blast
  from c(2) have "list_all valid_child (map cell_value (concat cells))"
    by (auto simp: list_all_iff)
  with True c(1) show ?thesis
    by (simp add: when_truthy_def v confusion_matrix_block_def)
next
  case False
  then show ?thesis by (simp add: when_truthy_def falsy_valid_child)
qed

lemma download_block_children: "list_all valid_child (children (download_block p))"
  by (simp add: download_block_def split: option.splits)

lemma download_block_kind:
  "\<not> is_explanation (download_block p) \<and> \<not> is_feature_importance (download_block p)
   \<and> \<not> is_confusion_matrix (download_block p)"
  by (simp add: download_block_def split: option.splits)

lemma accuracy_card_child:
  assumes "if truthy a then is_string a else True"
  shows "valid_child a"
proof (cases "truthy a")
  case True
  with assms show ?thesis by (cases a) simp_all
next
  case False
  then show ?thesis by (rule falsy_valid_child)
qed

lemma success_view:
  assumes "success r" and "shaped (metrics r)"
  shows "\<exists>ns. result_view parseFloat r = Inr ns
       \<and> (list_ex is_explanation ns \<longleftrightarrow> truthy (property (metrics r) ''Accuracy''))
       \<and> (list_ex is_feature_importance ns \<longleftrightarrow> truthy (property (metrics r) ''feature_importance''))
       \<and> (list_ex is_confusion_matrix ns \<longleftrightarrow> truthy (property (metrics r) ''confusion_matrix''))"
proof -
  let ?m = "metrics r"
  from assms(2) have a: "if truthy (property ?m ''Accuracy'') then is_string (property ?m ''Accuracy'') else True"
    and tr: "valid_child (property ?m ''train_samples'')"
    and te: "valid_child (property ?m ''test_samples'')"
    and f: "if truthy (property ?m ''feature_importance'')
            then importance_list (property ?m ''feature_importance'') else True"
    and c: "if truthy (property ?m ''confusion_matrix'')
            then number_matrix (property ?m ''confusion_matrix'') else True"
    by (simp_all add: shaped_def)
  from explanation_ok [OF a, of parseFloat] obtain n1 where
    n1: "when_truthy (property ?m ''Accuracy'') (explanation_block parseFloat (property ?m ''Accuracy'')) = Inr n1"
      "list_all valid_child (children n1)"
      "is_explanation n1 \<longleftrightarrow> truthy (property ?m ''Accuracy'')"
      "\<not> is_feature_importance n1" "\<not> is_confusion_matrix n1" by blast
  from feature_importance_ok [OF f] obtain n2 where
    n2: "when_truthy (property ?m ''feature_importance'')
           (feature_importance_block (property ?m ''feature_importance'')) = Inr n2"
      "list_all valid_child (children n2)"
      "is_feature_importance n2 \<longleftrightarrow> truthy (property ?m ''feature_importance'')"
      "\<not> is_explanation n2" "\<not> is_confusion_matrix n2" by blast
  from confusion_matrix_ok [OF c] obtain n3 where
    n3: "when_truthy (property ?m ''confusion_matrix'')
           (confusion_matrix_block (property ?m ''confusion_matrix'')) = Inr n3"
      "list_all valid_child (children n3)"
      "is_confusion_matrix n3 \<longleftrightarrow> truthy (property ?m ''confusion_matrix'')"
      "\<not> is_explanation n3" "\<not> is_feature_importance n3" by blast
  let ?ns = "[n1, MetricCard ''ACCURACY'' (property ?m ''Accuracy''),
              MetricCard ''TRAIN SAMPLES'' (property ?m ''train_samples''),
              MetricCard ''TEST SAMPLES'' (property ?m ''test_samples''),
              n2, n3, download_block (model_path r), LogsConsole (logs r)]"
  have blocks: "result_blocks parseFloat r = Inr ?ns"
    using assms(1) by (simp add: result_blocks_def success_blocks_def Let_def n1(1) n2(1) n3(1))
  have "list_all valid_child (concat (map children ?ns))"
    using n1(2) n2(2) n3(2) tr te accuracy_card_child [OF a] download_block_children [of "model_path r"]
    by simp
  then have "result_view parseFloat r = Inr ?ns"
    by (simp add: result_view_def blocks mount_def)
  moreover have "list_ex is_explanation ?ns \<longleftrightarrow> truthy (property ?m ''Accuracy'')"
    using n1(3) n2(4) n3(4) download_block_kind [of "model_path r"] by simp
  moreover have "list_ex is_feature_importance ?ns \<longleftrightarrow> truthy (property ?m ''feature_importance'')"
    using n1(4) n2(3) n3(5) download_block_kind [of "model_path r"] by simp
  moreover have "list_ex is_confusion_matrix ?ns \<longleftrightarrow> truthy (property ?m ''confusion_matrix'')"
    using n1(5) n2(5) n3(3) download_block_kind [of "model_path r"] by simp
  ultimately show ?thesis by blast
qed

text \<open>
  C8, as the claim states it, fails: a successful result whose metrics hold an empty
  accuracy string and a \<^verbatim>\<open>null\<close> feature importance has both keys, and its view has
  neither the explanation nor the feature-importance chart. And a successful result
  whose feature importance is a string, not a list, does not render: \<^verbatim>\<open>map\<close> is no
  method of the slice of a string.
\<close>

theorem falsy_metric_counterexample:
  "success \<lparr>success = True, message = ''Pipeline executed'',
      metrics = [(''Accuracy'', JStr []), (''train_samples'', JNum (Finite 120)),
                 (''test_samples'', JNum (Finite 30)), (''feature_importance'', JNull)],
      logs = [''Training complete''], model_path = None\<rparr>
   \<and> ''Accuracy'' \<in> fst ` set [(''Accuracy'', JStr []), (''train_samples'', JNum (Finite 120)),
                 (''test_samples'', JNum (Finite 30)), (''feature_importance'', JNull)]
   \<and> ''feature_importance'' \<in> fst ` set [(''Accuracy'', JStr []), (''train_samples'', JNum (Finite 120)),
                 (''test_samples'', JNum (Finite 30)), (''feature_importance'', JNull)]
   \<and> result_view (\<lambda>acc. NaN)
       \<lparr>success = True, message = ''Pipeline executed'',
        metrics = [(''Accuracy'', JStr []), (''train_samples'', JNum (Finite 120)),
                   (''test_samples'', JNum (Finite 30)), (''feature_importance'', JNull)],
        logs = [''Training complete''], model_path = None\<rparr> =
       Inr [Child (JStr []),
            MetricCard ''ACCURACY'' (JStr []),
            MetricCard ''TRAIN SAMPLES'' (JNum (Finite 120)),
            MetricCard ''TEST SAMPLES'' (JNum (Finite 30)),
            Child JNull, Child JUndefined, Child JUndefined,
            LogsConsole [''Training complete'']]
   \<and> result_view (\<lambda>acc. NaN)
       \<lparr>success = True, message = ''Pipeline executed'',
        metrics = [(''feature_importance'', JStr ''n/a'')],
        logs = [''Training complete''], model_path = None\<rparr> = Inl TypeError"
  by (simp add: result_view_def result_blocks_def success_blocks_def when_truthy_def
      property_def download_block_def mount_def feature_importance_block_def)

text \<open>
  C8, amended. For every successful result whose metrics have the shapes the view reads
  (an accuracy that is a string when truthy, sample counts that can be shown, a feature
  importance that is a list of entries when truthy, a confusion matrix that is an array
  of arrays of numbers when truthy), the results view renders without error, and each of
  the explanation, the feature-importance chart and the confusion matrix is in the view
  exactly when its key is in the metrics with a truthy value. So a key that is missing,
  or present with \<^verbatim>\<open>null\<close> or an empty string, leaves its section out and is no error.
\<close>

theorem results_sections:
  assumes "success r" and "shaped (metrics r)"
  shows "\<exists>ns. result_view parseFloat r = Inr ns
       \<and> (list_ex is_explanation ns \<longleftrightarrow>
            ''Accuracy'' \<in> fst ` set (metrics r) \<and> truthy (property (metrics r) ''Accuracy''))
       \<and> (list_ex is_feature_importance ns \<longleftrightarrow>
            ''feature_importance'' \<in> fst ` set (metrics r)
            \<and> truthy (property (metrics r) ''feature_importance''))
       \<and> (list_ex is_confusion_matrix ns \<longleftrightarrow>
            ''confusion_matrix'' \<in> fst ` set (metrics r)
            \<and> truthy (property (metrics r) ''confusion_matrix''))"
proof -
  from success_view [OF assms, of parseFloat] obtain ns where
    "result_view parseFloat r = Inr ns"
    "list_ex is_explanation ns \<longleftrightarrow> truthy (property (metrics r) ''Accuracy'')"
    "list_ex is_feature_importance ns \<longleftrightarrow> truthy (property (metrics r) ''feature_importance'')"
    "list_ex is_confusion_matrix ns \<longleftrightarrow> truthy (property (metrics r) ''confusion_matrix'')"
    by blast
  moreover have "truthy (property (metrics r) k) \<longleftrightarrow>
      k \<in> fst ` set (metrics r) \<and> truthy (property (metrics r) k)" for k
    using truthy_present [of "metrics r" k] by blast
  ultimately show ?thesis by (intro exI [of _ ns]) simp
qed

text \<open>
  A result with no metrics at all renders with none of the three sections; a result
  with all the metrics renders with the three of them.
\<close>

theorem results_sections_witness:
  "success \<lparr>success = True, message = ''Pipeline executed'', metrics = [],
      logs = [''Training complete''], model_path = None\<rparr>
   \<and> shaped []
   \<and> (\<exists>ns. result_view (\<lambda>acc. if acc = ''93.33'' then Finite 93.33 else NaN)
          \<lparr>success = True, message = ''Pipeline executed'', metrics = [],
           logs = [''Training complete''], model_path = None\<rparr> = Inr ns
        \<and> \<not> list_ex is_explanation ns \<and> \<not> list_ex is_feature_importance ns
        \<and> \<not> list_ex is_confusion_matrix ns)
   \<and> shaped [(''Accuracy'', JStr ''93.33%''), (''train_samples'', JNum (Finite 120)),
              (''test_samples'', JNum (Finite 30)),
              (''feature_importance'',
                 JArray [entry ''petal_length'' 0.6, entry ''petal_width'' 0.4]),
              (''confusion_matrix'',
                 JArray [JArray [JNum (Finite 10), JNum (Finite 0)],
                         JArray [JNum (Finite 1), JNum (Finite 19)]])]
   \<and> (\<exists>ns. result_view (\<lambda>acc. if acc = ''93.33'' then Finite 93.33 else NaN)
          \<lparr>success = True, message = ''Pipeline executed'',
           metrics = [(''Accuracy'', JStr ''93.33%''), (''train_samples'', JNum (Finite 120)),
              (''test_samples'', JNum (Finite 30)),
              (''feature_importance'',
                 JArray [entry ''petal_length'' 0.6, entry ''petal_width'' 0.4]),
              (''confusion_matrix'',
                 JArray [JArray [JNum (Finite 10), JNum (Finite 0)],
                         JArray [JNum (Finite 1), JNum (Finite 19)]])],
           logs = [''Training complete''], model_path = Some ''model_1.pkl''\<rparr> = Inr ns
        \<and> list_ex is_explanation ns \<and> list_ex is_feature_importance ns
        \<and> list_ex is_confusion_matrix ns)"
proof -
  let ?pf = "\<lambda>acc. if acc = ''93.33'' then Finite 93.33 else NaN"
  let ?e = "\<lparr>success = True, message = ''Pipeline executed'', metrics = [],
      logs = [''Training complete''], model_path = None\<rparr>"
  let ?m = "[(''Accuracy'', JStr ''93.33%''), (''train_samples'', JNum (Finite 120)),
              (''test_samples'', JNum (Finite 30)),
              (''feature_importance'',
                 JArray [entry ''petal_length'' 0.6, entry ''petal_width'' 0.4]),
              (''confusion_matrix'',
                 JArray [JArray [JNum (Finite 10), JNum (Finite 0)],
                         JArray [JNum (Finite 1), JNum (Finite 19)]])]"
  let ?f = "\<lparr>success = True, message = ''Pipeline executed'', metrics = ?m,
           logs = [''Training complete''], model_path = Some ''model_1.pkl''\<rparr>"
  have se: "shaped []" by (simp add: shaped_def property_def)
  have sf: "shaped ?m" by (simp add: shaped_def property_def importance_entry_entry)
  have e: "success ?e" "shaped (metrics ?e)" using se by simp_all
  have f: "success ?f" "shaped (metrics ?f)" using sf by simp_all
  from results_sections [OF e, of ?pf] results_sections [OF f, of ?pf] se sf
  show ?thesis by (simp add: property_def)
qed

end
